theory Spec2Isabelle
  imports Main
begin

section \<open>Values, exceptions and the outside world\<close>

text \<open>
  The module \<^verbatim>\<open>db_connection.py\<close> is a thin layer over three things it does not
  own: the file system, the JSON parser and the MySQL driver. They are parameters of
  the model. What \<^verbatim>\<open>json.load\<close> returns is a value of type \<open>json\<close>; a Python
  \<^verbatim>\<open>dict\<close> is the list of its items (its keys are distinct, so \<open>map_of\<close> is
  the lookup). Nothing in the module inspects a float, which is kept as the text of
  its literal.
\<close>

datatype json =
    JNull
  | JBool bool
  | JInt int
  | JFloat string
  | JStr string
  | JList "json list"
  | JObj "(string \<times> json) list"

text \<open>
  The exceptions that occur. \<open>Error\<close> is \<^verbatim>\<open>mysql.connector.Error\<close> with all its
  subclasses, the only class the module's \<^verbatim>\<open>except\<close> clauses name; every other
  class passes through them. \<open>OtherException\<close> stands for the classes the module never
  raises itself (\<^verbatim>\<open>OSError\<close>, \<^verbatim>\<open>UnicodeDecodeError\<close>, whatever a caller's block
  raises).
\<close>

datatype exn =
    FileNotFoundError string
  | ValueError string
  | KeyError string
  | TypeError
  | AttributeError
  | Error string
  | OtherException string

fun is_Error :: "exn \<Rightarrow> bool" where
  "is_Error (Error m) = True"
| "is_Error e = False"

text \<open>
  SQL text is a Python \<^verbatim>\<open>str\<close>: a sequence of code points. \<^verbatim>\<open>str.strip\<close>
  depends on the class of each code point, so the text is a list of code points, not
  of bytes.
\<close>

type_synonym codepoint = nat
type_synonym pystr = "codepoint list"

definition py :: "string \<Rightarrow> pystr" where
  "py s = map of_char s"

type_synonym handle = nat

record conn_args =
  host :: json
  port :: json
  user :: json
  password :: json
  database :: json
  charset :: json

text \<open>What the module prints, one constructor for each \<^verbatim>\<open>print\<close> of the source.\<close>

datatype message =
    Connected json
  | ConnectFailed exn
  | ConnectionClosed
  | DatabaseError exn
  | SchemaExecuted string
  | SchemaFailed exn
  | MySQLVersion json
  | TestFailed exn

text \<open>
  Every call the module makes on the driver or the console is an event; the trace of
  events is the observable behaviour. The handle in an event is the connection or the
  cursor the method was called on.
\<close>

datatype event =
    EvConnect conn_args
  | EvIsConnected handle
  | EvClose handle
  | EvCursor handle bool
  | EvCommit handle
  | EvRollback handle
  | EvExecute handle pystr
  | EvFetchone handle
  | EvCursorClose handle
  | EvPrint message

text \<open>
  The driver is any deterministic function of the calls made so far: each operation
  gets the trace before the call and answers with a result or an exception (of any
  class). Two operations cannot raise, by the driver's interface:
  \<^verbatim>\<open>is_connected()\<close> answers with a truth value and \<^verbatim>\<open>close()\<close> on a
  connection raises no exceptions. Connection and cursor objects are always true in a
  Boolean context.
\<close>

record driver =
  drv_connect :: "event list \<Rightarrow> conn_args \<Rightarrow> exn + handle"
  drv_is_connected :: "event list \<Rightarrow> handle \<Rightarrow> bool"
  drv_cursor :: "event list \<Rightarrow> handle \<Rightarrow> bool \<Rightarrow> exn + handle"
  drv_commit :: "event list \<Rightarrow> handle \<Rightarrow> exn option"
  drv_rollback :: "event list \<Rightarrow> handle \<Rightarrow> exn option"
  drv_execute :: "event list \<Rightarrow> handle \<Rightarrow> pystr \<Rightarrow> exn option"
  drv_fetchone :: "event list \<Rightarrow> handle \<Rightarrow> exn + json"
  drv_cursor_close :: "event list \<Rightarrow> handle \<Rightarrow> exn option"

text \<open>
  The file system: \<^verbatim>\<open>os.path.exists\<close>, \<^verbatim>\<open>open\<close> followed by
  \<^verbatim>\<open>json.load\<close>, and \<^verbatim>\<open>open\<close> followed by \<^verbatim>\<open>read\<close>.
\<close>

record filesystem =
  fs_exists :: "string \<Rightarrow> bool"
  fs_load_json :: "string \<Rightarrow> exn + json"
  fs_read :: "string \<Rightarrow> exn + pystr"

section \<open>Python's operations on the loaded configuration\<close>

definition and_then :: "exn + 'a \<Rightarrow> ('a \<Rightarrow> exn + 'b) \<Rightarrow> exn + 'b" where
  "and_then r f = (case r of Inl e \<Rightarrow> Inl e | Inr v \<Rightarrow> f v)"

definition substring :: "string \<Rightarrow> string \<Rightarrow> bool" where
  "substring k t = list_ex (\<lambda>n. take (length k) (drop n t) = k) [0..<Suc (length t)]"

text \<open>\<^verbatim>\<open>key in obj\<close>: key membership in a dict, element membership in a list, substring
  test in a string, \<^verbatim>\<open>TypeError\<close> otherwise.\<close>

fun py_contains :: "json \<Rightarrow> string \<Rightarrow> exn + bool" where
  "py_contains (JObj kvs) k = Inr (k \<in> set (map fst kvs))"
| "py_contains (JList xs) k = Inr (JStr k \<in> set xs)"
| "py_contains (JStr t) k = Inr (substring k t)"
| "py_contains j k = Inl TypeError"

text \<open>\<^verbatim>\<open>obj[key]\<close> with a string key.\<close>

fun py_getitem :: "json \<Rightarrow> string \<Rightarrow> exn + json" where
  "py_getitem (JObj kvs) k = (case map_of kvs k of None \<Rightarrow> Inl (KeyError k) | Some v \<Rightarrow> Inr v)"
| "py_getitem j k = Inl TypeError"

text \<open>\<^verbatim>\<open>obj.get(key, default)\<close>: only a dict has the method.\<close>

fun py_get :: "json \<Rightarrow> string \<Rightarrow> json \<Rightarrow> exn + json" where
  "py_get (JObj kvs) k d = Inr (case map_of kvs k of None \<Rightarrow> d | Some v \<Rightarrow> v)"
| "py_get j k d = Inl AttributeError"

section \<open>DatabaseConfig\<close>

record DatabaseConfig =
  config_file :: string
  config :: json

definition load_config :: "filesystem \<Rightarrow> string \<Rightarrow> exn + json" where
  "load_config fs path =
     (if \<not> fs_exists fs path
      then Inl (FileNotFoundError
             (''Configuration file '' @ [CHR 0x27] @ path @ [CHR 0x27] @
              '' not found. Please create it from my.json.example''))
      else and_then (fs_load_json fs path) (\<lambda>cfg.
           and_then (py_contains cfg ''database'') (\<lambda>present.
             if \<not> present
             then Inl (ValueError ''Database configuration not found in my.json'')
             else py_getitem cfg ''database'')))"

definition DatabaseConfig_init :: "filesystem \<Rightarrow> string \<Rightarrow> exn + DatabaseConfig" where
  "DatabaseConfig_init fs path =
     and_then (load_config fs path) (\<lambda>c. Inr \<lparr>config_file = path, config = c\<rparr>)"

definition get_telegram_config :: "filesystem \<Rightarrow> DatabaseConfig \<Rightarrow> exn + json" where
  "get_telegram_config fs self =
     and_then (fs_load_json fs (config_file self)) (\<lambda>cfg. py_get cfg ''telegram'' (JObj []))"

section \<open>DatabaseConnection\<close>

text \<open>
  The object's two attributes and the trace of the world it acts on. A method is a
  function from the state before to its outcome (\<open>Inl\<close> the exception raised,
  \<open>Inr\<close> the value returned) and the state after.
\<close>

record DatabaseConnection =
  db_config :: DatabaseConfig
  connection :: "handle option"
  trace :: "event list"

definition emit :: "event \<Rightarrow> DatabaseConnection \<Rightarrow> DatabaseConnection" where
  "emit ev s = s\<lparr>trace := trace s @ [ev]\<rparr>"

definition DatabaseConnection_init ::
  "filesystem \<Rightarrow> string \<Rightarrow> event list \<Rightarrow> exn + DatabaseConnection" where
  "DatabaseConnection_init fs path tr =
     and_then (DatabaseConfig_init fs path) (\<lambda>c.
       Inr \<lparr>db_config = c, connection = None, trace = tr\<rparr>)"

subsection \<open>connect and disconnect\<close>

text \<open>The keyword arguments of \<^verbatim>\<open>mysql.connector.connect\<close>, evaluated left to right.\<close>

definition connect_args :: "json \<Rightarrow> exn + conn_args" where
  "connect_args cfg =
     and_then (py_getitem cfg ''host'') (\<lambda>h.
     and_then (py_get cfg ''port'' (JInt 3306)) (\<lambda>p.
     and_then (py_getitem cfg ''user'') (\<lambda>u.
     and_then (py_getitem cfg ''password'') (\<lambda>pw.
     and_then (py_getitem cfg ''database'') (\<lambda>d.
     and_then (py_get cfg ''charset'' (JStr ''utf8mb4'')) (\<lambda>c.
       Inr \<lparr>host = h, port = p, user = u, password = pw, database = d, charset = c\<rparr>))))))"

text \<open>The clause \<^verbatim>\<open>except Error as e: print(...); raise\<close> of \<^verbatim>\<open>connect\<close>.\<close>

definition except_connect ::
  "exn \<Rightarrow> DatabaseConnection \<Rightarrow> (exn + handle option) \<times> DatabaseConnection" where
  "except_connect e s =
     (if is_Error e then (Inl e, emit (EvPrint (ConnectFailed e)) s) else (Inl e, s))"

definition connect ::
  "driver \<Rightarrow> DatabaseConnection \<Rightarrow> (exn + handle option) \<times> DatabaseConnection" where
  "connect drv s =
     (case connect_args (config (db_config s)) of
        Inl e \<Rightarrow> except_connect e s
      | Inr args \<Rightarrow>
          (case drv_connect drv (trace s) args of
             Inl e \<Rightarrow> except_connect e (emit (EvConnect args) s)
           | Inr h \<Rightarrow>
               (let s1 = (emit (EvConnect args) s)\<lparr>connection := Some h\<rparr>;
                    s2 = emit (EvIsConnected h) s1
                in if drv_is_connected drv (trace s1) h
                   then (Inr (Some h), emit (EvPrint (Connected (database args))) s2)
                   else (Inr None, s2))))"

definition disconnect :: "driver \<Rightarrow> DatabaseConnection \<Rightarrow> DatabaseConnection" where
  "disconnect drv s =
     (case connection s of
        None \<Rightarrow> s
      | Some c \<Rightarrow>
          (let s1 = emit (EvIsConnected c) s
           in if drv_is_connected drv (trace s) c
              then emit (EvPrint ConnectionClosed) (emit (EvClose c) s1)
              else s1))"

subsection \<open>get_cursor\<close>

text \<open>
  \<^verbatim>\<open>get_cursor\<close> is a generator under \<^verbatim>\<open>@contextmanager\<close>: a \<^verbatim>\<open>with\<close>
  statement runs it up to its \<^verbatim>\<open>yield\<close>, runs the block, and resumes it at the
  \<^verbatim>\<open>yield\<close>, normally or by throwing the block's exception there. One
  \<^verbatim>\<open>try\<close> statement spans the \<^verbatim>\<open>yield\<close>, so its \<^verbatim>\<open>except\<close> and
  \<^verbatim>\<open>finally\<close> clauses serve both halves.
\<close>

text \<open>The clause \<^verbatim>\<open>except Error as e\<close>, entered with the exception \<open>e\<close> in flight;
  the result is the exception in flight when the clause is left.\<close>

definition except_get_cursor ::
  "driver \<Rightarrow> exn \<Rightarrow> DatabaseConnection \<Rightarrow> exn \<times> DatabaseConnection" where
  "except_get_cursor drv e s =
     (if is_Error e
      then (case connection s of
              None \<Rightarrow> (e, emit (EvPrint (DatabaseError e)) s)
            | Some c \<Rightarrow>
                (case drv_rollback drv (trace s) c of
                   Some e2 \<Rightarrow> (e2, emit (EvRollback c) s)
                 | None \<Rightarrow> (e, emit (EvPrint (DatabaseError e)) (emit (EvRollback c) s))))
      else (e, s))"

text \<open>The clause \<^verbatim>\<open>finally: if cursor: cursor.close()\<close>; the result is the exception
  the clause itself raises, if any.\<close>

definition finally_get_cursor ::
  "driver \<Rightarrow> handle option \<Rightarrow> DatabaseConnection \<Rightarrow> exn option \<times> DatabaseConnection" where
  "finally_get_cursor drv cursor s =
     (case cursor of
        None \<Rightarrow> (None, s)
      | Some cur \<Rightarrow> (drv_cursor_close drv (trace s) cur, emit (EvCursorClose cur) s))"

text \<open>An exception raised inside the \<^verbatim>\<open>try\<close>: the \<^verbatim>\<open>except\<close> clause, then the
  \<^verbatim>\<open>finally\<close> clause, whose own exception replaces the one in flight.\<close>

definition raise_get_cursor ::
  "driver \<Rightarrow> handle option \<Rightarrow> exn \<Rightarrow> DatabaseConnection \<Rightarrow> exn \<times> DatabaseConnection" where
  "raise_get_cursor drv cursor e s =
     (case except_get_cursor drv e s of
        (e1, s1) \<Rightarrow>
          (case finally_get_cursor drv cursor s1 of
             (None, s2) \<Rightarrow> (e1, s2)
           | (Some e2, s2) \<Rightarrow> (e2, s2)))"

text \<open>\<^verbatim>\<open>if not self.connection or not self.connection.is_connected(): self.connect()\<close>\<close>

definition ensure_connected ::
  "driver \<Rightarrow> DatabaseConnection \<Rightarrow> (exn + unit) \<times> DatabaseConnection" where
  "ensure_connected drv s =
     (case connection s of
        None \<Rightarrow>
          (case connect drv s of (Inl e, s1) \<Rightarrow> (Inl e, s1) | (Inr r, s1) \<Rightarrow> (Inr (), s1))
      | Some c \<Rightarrow>
          (let s0 = emit (EvIsConnected c) s
           in if drv_is_connected drv (trace s) c
              then (Inr (), s0)
              else (case connect drv s0 of
                      (Inl e, s1) \<Rightarrow> (Inl e, s1)
                    | (Inr r, s1) \<Rightarrow> (Inr (), s1))))"

text \<open>\<^verbatim>\<open>self.connection.cursor(dictionary=dictionary)\<close>\<close>

definition make_cursor ::
  "driver \<Rightarrow> bool \<Rightarrow> DatabaseConnection \<Rightarrow> (exn + handle) \<times> DatabaseConnection" where
  "make_cursor drv dictionary s =
     (case connection s of
        None \<Rightarrow> (Inl AttributeError, s)
      | Some c \<Rightarrow> (drv_cursor drv (trace s) c dictionary, emit (EvCursor c dictionary) s))"

text \<open>\<^verbatim>\<open>self.connection.commit()\<close>\<close>

definition commit :: "driver \<Rightarrow> DatabaseConnection \<Rightarrow> exn option \<times> DatabaseConnection" where
  "commit drv s =
     (case connection s of
        None \<Rightarrow> (Some AttributeError, s)
      | Some c \<Rightarrow> (drv_commit drv (trace s) c, emit (EvCommit c) s))"

text \<open>The generator up to its \<^verbatim>\<open>yield\<close>; the local \<^verbatim>\<open>cursor\<close> is still
  \<^verbatim>\<open>None\<close> when an exception is raised here.\<close>

definition get_cursor_enter ::
  "driver \<Rightarrow> bool \<Rightarrow> DatabaseConnection \<Rightarrow> (exn + handle) \<times> DatabaseConnection" where
  "get_cursor_enter drv dictionary s =
     (case ensure_connected drv s of
        (Inl e, s1) \<Rightarrow> (case raise_get_cursor drv None e s1 of (e', s2) \<Rightarrow> (Inl e', s2))
      | (Inr u, s1) \<Rightarrow>
          (case make_cursor drv dictionary s1 of
             (Inl e, s2) \<Rightarrow> (case raise_get_cursor drv None e s2 of (e', s3) \<Rightarrow> (Inl e', s3))
           | (Inr cur, s2) \<Rightarrow> (Inr cur, s2)))"

text \<open>The generator from its \<^verbatim>\<open>yield\<close> on, resumed normally (\<open>None\<close>) or with the
  block's exception thrown at the \<^verbatim>\<open>yield\<close>; the result is the exception that leaves
  the generator, if any.\<close>

definition get_cursor_exit ::
  "driver \<Rightarrow> handle \<Rightarrow> exn option \<Rightarrow> DatabaseConnection \<Rightarrow> exn option \<times> DatabaseConnection"
  where
  "get_cursor_exit drv cur thrown s =
     (case thrown of
        Some e \<Rightarrow> (case raise_get_cursor drv (Some cur) e s of (e', s1) \<Rightarrow> (Some e', s1))
      | None \<Rightarrow>
          (case commit drv s of
             (Some e, s1) \<Rightarrow>
               (case raise_get_cursor drv (Some cur) e s1 of (e', s2) \<Rightarrow> (Some e', s2))
           | (None, s1) \<Rightarrow> finally_get_cursor drv (Some cur) s1))"

text \<open>\<^verbatim>\<open>with self.get_cursor(dictionary) as cursor: block\<close>. The block is any code of
  the caller: it gets the cursor and may act on the whole state.\<close>

definition get_cursor ::
  "driver \<Rightarrow> bool \<Rightarrow> (handle \<Rightarrow> DatabaseConnection \<Rightarrow> (exn + 'a) \<times> DatabaseConnection) \<Rightarrow>
   DatabaseConnection \<Rightarrow> (exn + 'a) \<times> DatabaseConnection" where
  "get_cursor drv dictionary block s =
     (case get_cursor_enter drv dictionary s of
        (Inl e, s1) \<Rightarrow> (Inl e, s1)
      | (Inr cur, s1) \<Rightarrow>
          (case block cur s1 of
             (r, s2) \<Rightarrow>
               (case get_cursor_exit drv cur (case r of Inl e \<Rightarrow> Some e | Inr v \<Rightarrow> None) s2 of
                  (Some e', s3) \<Rightarrow> (Inl e', s3)
                | (None, s3) \<Rightarrow> (r, s3))))"

subsection \<open>Cursor calls\<close>

definition cursor_execute ::
  "driver \<Rightarrow> handle \<Rightarrow> pystr \<Rightarrow> DatabaseConnection \<Rightarrow> (exn + unit) \<times> DatabaseConnection" where
  "cursor_execute drv cur stmt s =
     ((case drv_execute drv (trace s) cur stmt of Some e \<Rightarrow> Inl e | None \<Rightarrow> Inr ()),
      emit (EvExecute cur stmt) s)"

definition cursor_fetchone ::
  "driver \<Rightarrow> handle \<Rightarrow> DatabaseConnection \<Rightarrow> (exn + json) \<times> DatabaseConnection" where
  "cursor_fetchone drv cur s = (drv_fetchone drv (trace s) cur, emit (EvFetchone cur) s)"

subsection \<open>execute_schema\<close>

text \<open>The code points for which \<^verbatim>\<open>str.isspace\<close> holds; \<^verbatim>\<open>str.strip()\<close> removes
  them from both ends.\<close>

definition is_space :: "codepoint \<Rightarrow> bool" where
  "is_space c \<longleftrightarrow>
     (0x09 \<le> c \<and> c \<le> 0x0D) \<or> (0x1C \<le> c \<and> c \<le> 0x20) \<or> c = 0x85 \<or> c = 0xA0 \<or>
     c = 0x1680 \<or> (0x2000 \<le> c \<and> c \<le> 0x200A) \<or> c = 0x2028 \<or> c = 0x2029 \<or>
     c = 0x202F \<or> c = 0x205F \<or> c = 0x3000"

definition strip :: "pystr \<Rightarrow> pystr" where
  "strip s = rev (dropWhile is_space (rev (dropWhile is_space s)))"

text \<open>\<^verbatim>\<open>s.split(sep)\<close> for a separator of one code point: one more piece than there
  are separators, empty pieces kept.\<close>

fun split_on :: "codepoint \<Rightarrow> pystr \<Rightarrow> pystr list" where
  "split_on sep [] = [[]]"
| "split_on sep (c # cs) =
     (if c = sep then [] # split_on sep cs
      else (case split_on sep cs of
              [] \<Rightarrow> [[c]]
            | w # ws \<Rightarrow> (c # w) # ws))"

definition semicolon :: codepoint where
  "semicolon = 0x3B"

text \<open>\<^verbatim>\<open>[stmt.strip() for stmt in schema_sql.split(';') if stmt.strip()]\<close>\<close>

definition statements :: "pystr \<Rightarrow> pystr list" where
  "statements schema_sql =
     map strip (filter (\<lambda>stmt. strip stmt \<noteq> []) (split_on semicolon schema_sql))"

text \<open>\<^verbatim>\<open>for statement in statements: if statement: cursor.execute(statement)\<close>\<close>

fun execute_statements ::
  "driver \<Rightarrow> handle \<Rightarrow> pystr list \<Rightarrow> DatabaseConnection \<Rightarrow> (exn + unit) \<times> DatabaseConnection"
  where
  "execute_statements drv cur [] s = (Inr (), s)"
| "execute_statements drv cur (statement # rest) s =
     (if statement \<noteq> []
      then (case cursor_execute drv cur statement s of
              (Inl e, s1) \<Rightarrow> (Inl e, s1)
            | (Inr u, s1) \<Rightarrow> execute_statements drv cur rest s1)
      else execute_statements drv cur rest s)"

text \<open>The body of the \<^verbatim>\<open>try\<close> of \<^verbatim>\<open>execute_schema\<close>.\<close>

definition execute_schema_try ::
  "driver \<Rightarrow> filesystem \<Rightarrow> string \<Rightarrow> DatabaseConnection \<Rightarrow> (exn + unit) \<times> DatabaseConnection"
  where
  "execute_schema_try drv fs schema_file s =
     (case fs_read fs schema_file of
        Inl e \<Rightarrow> (Inl e, s)
      | Inr schema_sql \<Rightarrow>
          (case get_cursor drv True
                  (\<lambda>cursor. execute_statements drv cursor (statements schema_sql)) s of
             (Inl e, s1) \<Rightarrow> (Inl e, s1)
           | (Inr u, s1) \<Rightarrow> (Inr (), emit (EvPrint (SchemaExecuted schema_file)) s1)))"

definition execute_schema ::
  "driver \<Rightarrow> filesystem \<Rightarrow> string \<Rightarrow> DatabaseConnection \<Rightarrow> (exn + unit) \<times> DatabaseConnection"
  where
  "execute_schema drv fs schema_file s =
     (case execute_schema_try drv fs schema_file s of
        (Inl e, s1) \<Rightarrow>
          (if is_Error e then (Inl e, emit (EvPrint (SchemaFailed e)) s1) else (Inl e, s1))
      | (Inr u, s1) \<Rightarrow> (Inr u, s1))"

subsection \<open>test_connection\<close>

text \<open>The block of the \<^verbatim>\<open>with\<close> statement of \<^verbatim>\<open>test_connection\<close>; its
  \<^verbatim>\<open>return True\<close> leaves the block without an exception.\<close>

definition test_block ::
  "driver \<Rightarrow> handle \<Rightarrow> DatabaseConnection \<Rightarrow> (exn + bool) \<times> DatabaseConnection" where
  "test_block drv cursor s =
     (case cursor_execute drv cursor (py ''SELECT VERSION()'') s of
        (Inl e, s1) \<Rightarrow> (Inl e, s1)
      | (Inr u, s1) \<Rightarrow>
          (case cursor_fetchone drv cursor s1 of
             (Inl e, s2) \<Rightarrow> (Inl e, s2)
           | (Inr version, s2) \<Rightarrow> (Inr True, emit (EvPrint (MySQLVersion version)) s2)))"

text \<open>The body of the \<^verbatim>\<open>try\<close> of \<^verbatim>\<open>test_connection\<close>.\<close>

definition test_connection_try ::
  "driver \<Rightarrow> DatabaseConnection \<Rightarrow> (exn + bool) \<times> DatabaseConnection" where
  "test_connection_try drv s =
     (case connect drv s of
        (Inl e, s1) \<Rightarrow> (Inl e, s1)
      | (Inr r, s1) \<Rightarrow> get_cursor drv True (test_block drv) s1)"

text \<open>\<^verbatim>\<open>except Error\<close> turns a driver error into \<^verbatim>\<open>False\<close>; \<^verbatim>\<open>finally\<close> runs
  \<^verbatim>\<open>disconnect\<close> on every path.\<close>

definition test_connection ::
  "driver \<Rightarrow> DatabaseConnection \<Rightarrow> (exn + bool) \<times> DatabaseConnection" where
  "test_connection drv s =
     (case test_connection_try drv s of
        (Inl e, s1) \<Rightarrow>
          (if is_Error e
           then (Inr False, disconnect drv (emit (EvPrint (TestFailed e)) s1))
           else (Inl e, disconnect drv s1))
      | (Inr b, s1) \<Rightarrow> (Inr b, disconnect drv s1))"

section \<open>Concrete inputs\<close>

text \<open>A configuration with the four required keys and neither \<^verbatim>\<open>port\<close> nor
  \<^verbatim>\<open>charset\<close>, one that sets both, and one that lacks \<^verbatim>\<open>host\<close>.\<close>

definition sample_config :: json where
  "sample_config =
     JObj [(''host'', JStr ''localhost''), (''user'', JStr ''tg''),
           (''password'', JStr ''secret''), (''database'', JStr ''telegram'')]"

definition explicit_config :: json where
  "explicit_config =
     JObj [(''host'', JStr ''db.example.org''), (''port'', JInt 3307), (''user'', JStr ''tg''),
           (''password'', JStr ''secret''), (''database'', JStr ''telegram''),
           (''charset'', JStr ''latin1'')]"

definition hostless_config :: json where
  "hostless_config = JObj [(''user'', JStr ''tg'')]"

text \<open>A file system with a complete configuration file, one without the
  \<^verbatim>\<open>database\<close> section, no \<^verbatim>\<open>missing.json\<close>, and the schema file of the
  specification's example.\<close>

definition sample_fs :: filesystem where
  "sample_fs =
     \<lparr>fs_exists = (\<lambda>p. p \<noteq> ''missing.json''),
      fs_load_json = (\<lambda>p.
        if p = ''my.json'' then Inr (JObj [(''database'', sample_config)])
        else if p = ''nodb.json''
        then Inr (JObj [(''telegram'', JObj [(''api_id'', JInt 12345)])])
        else Inl (OtherException ''OSError'')),
      fs_read = (\<lambda>p.
        if p = ''database_schema.sql''
        then Inr (py ''CREATE TABLE a(id INT);  ;CREATE TABLE b(id INT);'')
        else if p = ''broken_schema.sql''
        then Inr (py ''CREATE TABLE a(id INT);CREATE TABLE c(id INT);CREATE TABLE b(id INT);'')
        else Inl (FileNotFoundError p))\<rparr>"

text \<open>A server that accepts every call except the creation of table \<^verbatim>\<open>c\<close>; a
  connection is live until it is closed. And a server that refuses connections.\<close>

definition sample_driver :: driver where
  "sample_driver =
     \<lparr>drv_connect = (\<lambda>tr a. Inr 1),
      drv_is_connected = (\<lambda>tr h. EvClose h \<notin> set tr),
      drv_cursor = (\<lambda>tr h d. Inr 2),
      drv_commit = (\<lambda>tr h. None),
      drv_rollback = (\<lambda>tr h. None),
      drv_execute = (\<lambda>tr h st.
        if st = py ''CREATE TABLE c(id INT)'' then Some (Error ''1050 (42S01)'') else None),
      drv_fetchone = (\<lambda>tr h. Inr (JObj [(''VERSION()'', JStr ''8.0.36'')])),
      drv_cursor_close = (\<lambda>tr h. None)\<rparr>"

definition refusing_driver :: driver where
  "refusing_driver = sample_driver\<lparr>drv_connect := (\<lambda>tr a. Inl (Error ''2003 (HY000)''))\<rparr>"

text \<open>A server that raises an exception of another class at every statement, and one
  whose rollback fails.\<close>

definition interrupted_driver :: driver where
  "interrupted_driver =
     sample_driver\<lparr>drv_execute := (\<lambda>tr h st. Some (OtherException ''RuntimeError''))\<rparr>"

definition stuck_driver :: driver where
  "stuck_driver = sample_driver\<lparr>drv_rollback := (\<lambda>tr h. Some (Error ''2013 (HY000)''))\<rparr>"

definition fresh :: "json \<Rightarrow> DatabaseConnection" where
  "fresh cfg =
     \<lparr>db_config = \<lparr>config_file = ''my.json'', config = cfg\<rparr>, connection = None, trace = []\<rparr>"

text \<open>The arguments \<^verbatim>\<open>connect\<close> builds from \<open>sample_config\<close>, and the state in
  which a block starts when \<^verbatim>\<open>get_cursor\<close> is entered on a fresh object.\<close>

definition sample_args :: conn_args where
  "sample_args =
     \<lparr>host = JStr ''localhost'', port = JInt 3306, user = JStr ''tg'',
      password = JStr ''secret'', database = JStr ''telegram'', charset = JStr ''utf8mb4''\<rparr>"

definition opened :: DatabaseConnection where
  "opened =
     \<lparr>db_config = \<lparr>config_file = ''my.json'', config = sample_config\<rparr>,
      connection = Some 1,
      trace = [EvConnect sample_args, EvIsConnected 1, EvPrint (Connected (JStr ''telegram'')),
               EvCursor 1 True]\<rparr>"

text \<open>Three blocks: one raises a plain \<^verbatim>\<open>ValueError\<close>, one runs the statement the
  sample server rejects, one runs a query the server accepts.\<close>

definition failing_block ::
  "handle \<Rightarrow> DatabaseConnection \<Rightarrow> (exn + unit) \<times> DatabaseConnection" where
  "failing_block cursor s = (Inl (ValueError ''bad value''), s)"

definition driver_error_block ::
  "handle \<Rightarrow> DatabaseConnection \<Rightarrow> (exn + unit) \<times> DatabaseConnection" where
  "driver_error_block cursor s =
     cursor_execute sample_driver cursor (py ''CREATE TABLE c(id INT)'') s"

definition query_block ::
  "handle \<Rightarrow> DatabaseConnection \<Rightarrow> (exn + unit) \<times> DatabaseConnection" where
  "query_block cursor s = cursor_execute sample_driver cursor (py ''SELECT 1'') s"

text \<open>How many times \<^verbatim>\<open>rollback\<close> was invoked in a trace.\<close>

fun rollbacks :: "event list \<Rightarrow> nat" where
  "rollbacks [] = 0"
| "rollbacks (EvRollback c # evs) = Suc (rollbacks evs)"
| "rollbacks (ev # evs) = rollbacks evs"

section \<open>Basic facts\<close>

lemma and_then_simps [simp]:
  "and_then (Inl e) f = Inl e"
  "and_then (Inr v) f = f v"
  by (simp_all add: and_then_def)

lemma map_of_None_iff_keys: "map_of kvs k = None \<longleftrightarrow> k \<notin> set (map fst kvs)"
  by (simp add: map_of_eq_None_iff)

lemma emit_simps [simp]:
  "trace (emit ev s) = trace s @ [ev]"
  "connection (emit ev s) = connection s"
  "db_config (emit ev s) = db_config s"
  by (simp_all add: emit_def)

lemma sample_driver_simps [simp]:
  "drv_connect sample_driver = (\<lambda>tr a. Inr 1)"
  "drv_is_connected sample_driver = (\<lambda>tr h. EvClose h \<notin> set tr)"
  "drv_cursor sample_driver = (\<lambda>tr h d. Inr 2)"
  "drv_commit sample_driver = (\<lambda>tr h. None)"
  "drv_rollback sample_driver = (\<lambda>tr h. None)"
  "drv_execute sample_driver = (\<lambda>tr h st.
        if st = py ''CREATE TABLE c(id INT)'' then Some (Error ''1050 (42S01)'') else None)"
  "drv_fetchone sample_driver = (\<lambda>tr h. Inr (JObj [(''VERSION()'', JStr ''8.0.36'')]))"
  "drv_cursor_close sample_driver = (\<lambda>tr h. None)"
  by (simp_all add: sample_driver_def)

lemma connect_args_sample: "connect_args sample_config = Inr sample_args"
  by (simp add: connect_args_def sample_config_def sample_args_def)

lemma enter_sample:
  "get_cursor_enter sample_driver True (fresh sample_config) = (Inr 2, opened)"
  by (simp add: get_cursor_enter_def ensure_connected_def make_cursor_def connect_def
      connect_args_sample fresh_def emit_def opened_def sample_args_def)

lemma stuck_driver_simps [simp]:
  "drv_connect stuck_driver = drv_connect sample_driver"
  "drv_is_connected stuck_driver = drv_is_connected sample_driver"
  "drv_cursor stuck_driver = drv_cursor sample_driver"
  "drv_commit stuck_driver = drv_commit sample_driver"
  "drv_rollback stuck_driver = (\<lambda>tr h. Some (Error ''2013 (HY000)''))"
  "drv_execute stuck_driver = drv_execute sample_driver"
  "drv_fetchone stuck_driver = drv_fetchone sample_driver"
  "drv_cursor_close stuck_driver = drv_cursor_close sample_driver"
  by (simp_all add: stuck_driver_def)

lemma interrupted_driver_simps [simp]:
  "drv_connect interrupted_driver = drv_connect sample_driver"
  "drv_is_connected interrupted_driver = drv_is_connected sample_driver"
  "drv_cursor interrupted_driver = drv_cursor sample_driver"
  "drv_commit interrupted_driver = drv_commit sample_driver"
  "drv_rollback interrupted_driver = drv_rollback sample_driver"
  "drv_execute interrupted_driver = (\<lambda>tr h st. Some (OtherException ''RuntimeError''))"
  "drv_fetchone interrupted_driver = drv_fetchone sample_driver"
  "drv_cursor_close interrupted_driver = drv_cursor_close sample_driver"
  by (simp_all add: interrupted_driver_def)

lemma enter_stuck:
  "get_cursor_enter stuck_driver True (fresh sample_config) = (Inr 2, opened)"
  by (simp add: get_cursor_enter_def ensure_connected_def make_cursor_def connect_def
      connect_args_sample fresh_def emit_def opened_def sample_args_def)

lemma enter_interrupted:
  "get_cursor_enter interrupted_driver True (fresh sample_config) = (Inr 2, opened)"
  by (simp add: get_cursor_enter_def ensure_connected_def make_cursor_def connect_def
      connect_args_sample fresh_def emit_def opened_def sample_args_def)

lemma failing_block_opened: "failing_block 2 opened = (Inl (ValueError ''bad value''), opened)"
  by (simp add: failing_block_def)

lemma py_select_neq: "py ''SELECT 1'' \<noteq> py ''CREATE TABLE c(id INT)''"
  by (simp add: py_def)

lemma query_block_opened:
  "query_block 2 opened = (Inr (), emit (EvExecute 2 (py ''SELECT 1'')) opened)"
  by (simp add: query_block_def cursor_execute_def py_select_neq)

lemma driver_error_block_opened:
  "driver_error_block 2 opened =
     (Inl (Error ''1050 (42S01)''), emit (EvExecute 2 (py ''CREATE TABLE c(id INT)'')) opened)"
  by (simp add: driver_error_block_def cursor_execute_def)

section \<open>Loading the configuration\<close>

text \<open>
  Claim C4. \<^verbatim>\<open>load_config\<close> raises \<^verbatim>\<open>FileNotFoundError\<close> (the specification's
  ConfigNotFound) when the file does not exist; when the file exists and holds a JSON
  object without the key \<^verbatim>\<open>database\<close> it raises \<^verbatim>\<open>ValueError\<close> (ConfigInvalid),
  with no default; and when the object has the key it returns exactly the value stored
  under it.
\<close>

theorem load_config_outcomes:
  "(\<not> fs_exists fs path \<longrightarrow>
      load_config fs path = Inl (FileNotFoundError
        (''Configuration file '' @ [CHR 0x27] @ path @ [CHR 0x27] @
         '' not found. Please create it from my.json.example''))) \<and>
   (fs_exists fs path \<and> fs_load_json fs path = Inr (JObj kvs) \<and>
      ''database'' \<notin> set (map fst kvs) \<longrightarrow>
      load_config fs path = Inl (ValueError ''Database configuration not found in my.json'')) \<and>
   (fs_exists fs path \<and> fs_load_json fs path = Inr (JObj kvs) \<and>
      map_of kvs ''database'' = Some v \<longrightarrow>
      load_config fs path = Inr v)"
proof (intro conjI impI)
  assume "\<not> fs_exists fs path"
  then show "load_config fs path = Inl (FileNotFoundError
        (''Configuration file '' @ [CHR 0x27] @ path @ [CHR 0x27] @
         '' not found. Please create it from my.json.example''))"
    by (simp add: load_config_def)
next
  assume "fs_exists fs path \<and> fs_load_json fs path = Inr (JObj kvs) \<and>
      ''database'' \<notin> set (map fst kvs)"
  then show "load_config fs path =
      Inl (ValueError ''Database configuration not found in my.json'')"
    by (simp add: load_config_def)
next
  assume a: "fs_exists fs path \<and> fs_load_json fs path = Inr (JObj kvs) \<and>
      map_of kvs ''database'' = Some v"
  then have "''database'' \<in> set (map fst kvs)"
    using map_of_None_iff_keys [of kvs "''database''"] by simp
  with a show "load_config fs path = Inr v"
    by (simp add: load_config_def)
qed

theorem load_config_outcomes_witness:
  "(\<exists>m. load_config sample_fs ''missing.json'' = Inl (FileNotFoundError m)) \<and>
   load_config sample_fs ''nodb.json'' =
     Inl (ValueError ''Database configuration not found in my.json'') \<and>
   load_config sample_fs ''my.json'' = Inr sample_config"
proof -
  have 1: "\<not> fs_exists sample_fs ''missing.json''"
    by (simp add: sample_fs_def)
  have 2: "fs_exists sample_fs ''nodb.json'' \<and>
      fs_load_json sample_fs ''nodb.json'' =
        Inr (JObj [(''telegram'', JObj [(''api_id'', JInt 12345)])]) \<and>
      ''database'' \<notin> set (map fst [(''telegram'', JObj [(''api_id'', JInt 12345)])])"
    by (simp add: sample_fs_def)
  have 3: "fs_exists sample_fs ''my.json'' \<and>
      fs_load_json sample_fs ''my.json'' = Inr (JObj [(''database'', sample_config)]) \<and>
      map_of [(''database'', sample_config)] ''database'' = Some sample_config"
    by (simp add: sample_fs_def)
  from 1 load_config_outcomes [of sample_fs "''missing.json''"]
  have "\<exists>m. load_config sample_fs ''missing.json'' = Inl (FileNotFoundError m)"
    by blast
  moreover
  from 2 load_config_outcomes
    [of sample_fs "''nodb.json''" "[(''telegram'', JObj [(''api_id'', JInt 12345)])]"]
  have "load_config sample_fs ''nodb.json'' =
     Inl (ValueError ''Database configuration not found in my.json'')"
    by blast
  moreover
  from 3 load_config_outcomes
    [of sample_fs "''my.json''" "[(''database'', sample_config)]" sample_config]
  have "load_config sample_fs ''my.json'' = Inr sample_config"
    by blast
  ultimately show ?thesis by blast
qed

text \<open>
  Claim C9. \<^verbatim>\<open>get_telegram_config\<close> reads the file anew at every call: its result
  is determined by what the file holds at the call (a JSON object) and not by the
  configuration cached in the object. It returns the section stored under
  \<^verbatim>\<open>telegram\<close>, and the empty mapping, not an error, when the object has no such
  key.
\<close>

theorem get_telegram_config_rereads:
  assumes "fs_load_json fs (config_file self) = Inr (JObj kvs)"
  shows "get_telegram_config fs self =
           Inr (case map_of kvs ''telegram'' of None \<Rightarrow> JObj [] | Some v \<Rightarrow> v) \<and>
         (''telegram'' \<notin> set (map fst kvs) \<longrightarrow> get_telegram_config fs self = Inr (JObj [])) \<and>
         get_telegram_config fs (self\<lparr>config := c\<rparr>) = get_telegram_config fs self"
  using assms map_of_None_iff_keys [of kvs "''telegram''"]
  by (auto simp add: get_telegram_config_def split: option.splits)

theorem get_telegram_config_rereads_witness:
  "get_telegram_config sample_fs \<lparr>config_file = ''my.json'', config = sample_config\<rparr> =
     Inr (JObj []) \<and>
   get_telegram_config sample_fs \<lparr>config_file = ''nodb.json'', config = sample_config\<rparr> =
     Inr (JObj [(''api_id'', JInt 12345)])"
proof -
  have 1: "fs_load_json sample_fs (config_file \<lparr>config_file = ''my.json'', config = sample_config\<rparr>) =
      Inr (JObj [(''database'', sample_config)])"
    by (simp add: sample_fs_def)
  have 2: "fs_load_json sample_fs
        (config_file \<lparr>config_file = ''nodb.json'', config = sample_config\<rparr>) =
      Inr (JObj [(''telegram'', JObj [(''api_id'', JInt 12345)])])"
    by (simp add: sample_fs_def)
  from get_telegram_config_rereads [OF 1] get_telegram_config_rereads [OF 2]
  show ?thesis by simp
qed

section \<open>Opening the connection\<close>

lemma connect_args_JObj:
  assumes "map_of kvs ''host'' = Some h" "map_of kvs ''user'' = Some u"
    "map_of kvs ''password'' = Some pw" "map_of kvs ''database'' = Some d"
  shows "connect_args (JObj kvs) =
     Inr \<lparr>host = h,
          port = (case map_of kvs ''port'' of None \<Rightarrow> JInt 3306 | Some p \<Rightarrow> p),
          user = u, password = pw, database = d,
          charset = (case map_of kvs ''charset'' of None \<Rightarrow> JStr ''utf8mb4'' | Some c \<Rightarrow> c)\<rparr>"
  using assms by (simp add: connect_args_def)

lemma connect_trace_starts:
  assumes "connect_args (config (db_config s)) = Inr args"
  shows "\<exists>rest. trace (snd (connect drv s)) = trace s @ EvConnect args # rest"
  using assms
  by (simp add: connect_def except_connect_def Let_def split: sum.splits)

text \<open>
  Claim C6. With a configuration that has the four required keys, the first thing
  \<^verbatim>\<open>connect\<close> does is to call the driver's \<^verbatim>\<open>connect\<close>, with port \<open>3306\<close>
  when the configuration has no \<^verbatim>\<open>port\<close> and charset \<^verbatim>\<open>utf8mb4\<close> when it has no
  \<^verbatim>\<open>charset\<close>; a configured value of either key is passed on instead.
\<close>

theorem connect_port_charset_defaults:
  assumes "config (db_config s) = JObj kvs"
    and "map_of kvs ''host'' = Some h" and "map_of kvs ''user'' = Some u"
    and "map_of kvs ''password'' = Some pw" and "map_of kvs ''database'' = Some d"
  shows "\<exists>rest. trace (snd (connect drv s)) =
     trace s @
     EvConnect \<lparr>host = h,
          port = (case map_of kvs ''port'' of None \<Rightarrow> JInt 3306 | Some p \<Rightarrow> p),
          user = u, password = pw, database = d,
          charset = (case map_of kvs ''charset'' of None \<Rightarrow> JStr ''utf8mb4'' | Some c \<Rightarrow> c)\<rparr>
     # rest"
proof -
  have "connect_args (config (db_config s)) =
     Inr \<lparr>host = h,
          port = (case map_of kvs ''port'' of None \<Rightarrow> JInt 3306 | Some p \<Rightarrow> p),
          user = u, password = pw, database = d,
          charset = (case map_of kvs ''charset'' of None \<Rightarrow> JStr ''utf8mb4'' | Some c \<Rightarrow> c)\<rparr>"
    using assms connect_args_JObj by simp
  then show ?thesis by (rule connect_trace_starts)
qed

theorem connect_port_charset_defaults_witness:
  "(\<exists>rest. trace (snd (connect sample_driver (fresh sample_config))) =
      EvConnect \<lparr>host = JStr ''localhost'', port = JInt 3306, user = JStr ''tg'',
        password = JStr ''secret'', database = JStr ''telegram'',
        charset = JStr ''utf8mb4''\<rparr> # rest) \<and>
   (\<exists>rest. trace (snd (connect sample_driver (fresh explicit_config))) =
      EvConnect \<lparr>host = JStr ''db.example.org'', port = JInt 3307, user = JStr ''tg'',
        password = JStr ''secret'', database = JStr ''telegram'',
        charset = JStr ''latin1''\<rparr> # rest)"
proof -
  have a: "config (db_config (fresh sample_config)) =
     JObj [(''host'', JStr ''localhost''), (''user'', JStr ''tg''),
           (''password'', JStr ''secret''), (''database'', JStr ''telegram'')]"
    by (simp add: fresh_def sample_config_def)
  have b: "config (db_config (fresh explicit_config)) =
     JObj [(''host'', JStr ''db.example.org''), (''port'', JInt 3307), (''user'', JStr ''tg''),
           (''password'', JStr ''secret''), (''database'', JStr ''telegram''),
           (''charset'', JStr ''latin1'')]"
    by (simp add: fresh_def explicit_config_def)
  have "\<exists>rest. trace (snd (connect sample_driver (fresh sample_config))) =
      EvConnect \<lparr>host = JStr ''localhost'', port = JInt 3306, user = JStr ''tg'',
        password = JStr ''secret'', database = JStr ''telegram'',
        charset = JStr ''utf8mb4''\<rparr> # rest"
    using connect_port_charset_defaults [OF a, of "JStr ''localhost''" "JStr ''tg''"
        "JStr ''secret''" "JStr ''telegram''" sample_driver]
    by (simp add: fresh_def)
  moreover
  have "\<exists>rest. trace (snd (connect sample_driver (fresh explicit_config))) =
      EvConnect \<lparr>host = JStr ''db.example.org'', port = JInt 3307, user = JStr ''tg'',
        password = JStr ''secret'', database = JStr ''telegram'',
        charset = JStr ''latin1''\<rparr> # rest"
    using connect_port_charset_defaults [OF b, of "JStr ''db.example.org''" "JStr ''tg''"
        "JStr ''secret''" "JStr ''telegram''" sample_driver]
    by (simp add: fresh_def)
  ultimately show ?thesis by blast
qed

lemma connect_args_not_Error: "connect_args cfg = Inl e \<Longrightarrow> \<not> is_Error e"
  by (cases cfg)
     (auto simp add: connect_args_def and_then_def split: sum.splits option.splits)

text \<open>
  Claim C8, as the code has it. When the driver's \<^verbatim>\<open>connect\<close> raises,
  \<^verbatim>\<open>connect\<close> raises that very exception, after reporting it when it is a driver
  \<^verbatim>\<open>Error\<close>. Whenever \<^verbatim>\<open>connect\<close> raises, the stored connection handle is
  the one from before the call, so an object that was disconnected stays disconnected.
  A driver \<^verbatim>\<open>Error\<close> that \<^verbatim>\<open>connect\<close> raises is always the one the driver's
  \<^verbatim>\<open>connect\<close> raised; an exception raised while the arguments are built from the
  configuration is never a driver \<^verbatim>\<open>Error\<close> and leaves everything untouched.
\<close>

theorem connect_failure_keeps_state:
  "(connect drv s = (Inl e, s') \<longrightarrow>
      connection s' = connection s \<and> db_config s' = db_config s \<and>
      (connection s = None \<longrightarrow> connection s' = None) \<and>
      (\<forall>args. connect_args (config (db_config s)) = Inr args \<longrightarrow>
         drv_connect drv (trace s) args = Inl e \<and>
         trace s' = trace s @ EvConnect args #
           (if is_Error e then [EvPrint (ConnectFailed e)] else [])) \<and>
      (is_Error e \<longrightarrow>
         (\<exists>args. connect_args (config (db_config s)) = Inr args \<and>
            drv_connect drv (trace s) args = Inl e)) \<and>
      (connect_args (config (db_config s)) = Inl e \<longrightarrow> \<not> is_Error e \<and> s' = s)) \<and>
   (connect_args (config (db_config s)) = Inr args \<and>
    drv_connect drv (trace s) args = Inl e0 \<longrightarrow>
      connect drv s =
        (Inl e0, if is_Error e0 then emit (EvPrint (ConnectFailed e0)) (emit (EvConnect args) s)
                 else emit (EvConnect args) s))"
proof (intro conjI impI)
  assume a: "connect drv s = (Inl e, s')"
  then show "connection s' = connection s" "db_config s' = db_config s"
    by (auto simp add: connect_def except_connect_def Let_def split: sum.splits if_splits)
  then show "connection s' = None" if "connection s = None" using that by simp
  from a show "\<forall>args. connect_args (config (db_config s)) = Inr args \<longrightarrow>
         drv_connect drv (trace s) args = Inl e \<and>
         trace s' = trace s @ EvConnect args #
           (if is_Error e then [EvPrint (ConnectFailed e)] else [])"
    by (auto simp add: connect_def except_connect_def Let_def split: sum.splits if_splits)
  show "\<exists>args. connect_args (config (db_config s)) = Inr args \<and>
            drv_connect drv (trace s) args = Inl e" if "is_Error e"
  proof (cases "connect_args (config (db_config s))")
    case (Inl e1)
    with a have "e = e1"
      by (auto simp add: connect_def except_connect_def split: if_splits)
    with Inl connect_args_not_Error that show ?thesis by blast
  next
    case (Inr args)
    with a show ?thesis
      by (auto simp add: connect_def except_connect_def Let_def split: sum.splits if_splits)
  qed
  show "\<not> is_Error e" "s' = s" if "connect_args (config (db_config s)) = Inl e"
    using that a connect_args_not_Error [OF that]
    by (auto simp add: connect_def except_connect_def split: if_splits)
next
  assume "connect_args (config (db_config s)) = Inr args \<and>
    drv_connect drv (trace s) args = Inl e0"
  then show "connect drv s =
        (Inl e0, if is_Error e0 then emit (EvPrint (ConnectFailed e0)) (emit (EvConnect args) s)
                 else emit (EvConnect args) s)"
    by (simp add: connect_def except_connect_def)
qed

theorem connect_failure_keeps_state_witness:
  "connect refusing_driver (fresh sample_config) =
     (Inl (Error ''2003 (HY000)''),
      (fresh sample_config)\<lparr>trace :=
         [EvConnect sample_args, EvPrint (ConnectFailed (Error ''2003 (HY000)''))]\<rparr>) \<and>
   connection (snd (connect refusing_driver (fresh sample_config))) = None"
proof -
  let ?e = "Error ''2003 (HY000)''"
  let ?s' = "(fresh sample_config)\<lparr>trace := [EvConnect sample_args, EvPrint (ConnectFailed ?e)]\<rparr>"
  have h: "connect_args (config (db_config (fresh sample_config))) = Inr sample_args \<and>
      drv_connect refusing_driver (trace (fresh sample_config)) sample_args = Inl ?e"
    by (simp add: fresh_def connect_args_sample refusing_driver_def)
  note fwd = connect_failure_keeps_state
    [of refusing_driver "fresh sample_config" ?e ?s' sample_args ?e,
     THEN conjunct2, THEN mp, OF h]
  then have c: "connect refusing_driver (fresh sample_config) = (Inl ?e, ?s')"
    by (simp add: emit_def fresh_def)
  note bwd = connect_failure_keeps_state
    [of refusing_driver "fresh sample_config" ?e ?s' sample_args ?e,
     THEN conjunct1, THEN mp, OF c]
  have n: "connection (fresh sample_config) = None"
    by (simp add: fresh_def)
  from bwd n have "connection ?s' = None"
    by (elim conjE) simp
  then have "connection (snd (connect refusing_driver (fresh sample_config))) = None"
    by (simp only: c snd_conv)
  with c show ?thesis by simp
qed

text \<open>
  The claim as stated, that every failure of \<^verbatim>\<open>connect\<close> is a driver error,
  fails: with a configuration without \<^verbatim>\<open>host\<close> it raises \<^verbatim>\<open>KeyError\<close>.
\<close>

theorem connect_keyerror_counterexample:
  "connect sample_driver (fresh hostless_config) =
     (Inl (KeyError ''host''), fresh hostless_config) \<and>
   \<not> is_Error (KeyError ''host'')"
  by (simp add: connect_def connect_args_def except_connect_def hostless_config_def fresh_def)

section \<open>The scoped cursor\<close>

text \<open>
  Claim C10. When the cursor was acquired and the block raises an exception that is
  not a driver \<^verbatim>\<open>Error\<close>, the only call \<^verbatim>\<open>get_cursor\<close> makes after the block
  is \<^verbatim>\<open>cursor.close()\<close>: neither \<^verbatim>\<open>commit\<close> nor \<^verbatim>\<open>rollback\<close> is invoked.
  The block's exception then propagates (when \<^verbatim>\<open>close\<close> itself raises, its exception
  propagates instead).
\<close>

theorem get_cursor_other_exception:
  assumes "get_cursor_enter drv dictionary s = (Inr cur, s1)"
    and "block cur s1 = (Inl e, s2)"
    and "\<not> is_Error e"
  shows "\<exists>r. get_cursor drv dictionary block s = (Inl r, emit (EvCursorClose cur) s2) \<and>
             (drv_cursor_close drv (trace s2) cur = None \<longrightarrow> r = e)"
  using assms
  by (simp add: get_cursor_def get_cursor_exit_def raise_get_cursor_def except_get_cursor_def
      finally_get_cursor_def split: option.splits)

theorem get_cursor_other_exception_witness:
  "get_cursor sample_driver True failing_block (fresh sample_config) =
     (Inl (ValueError ''bad value''), emit (EvCursorClose 2) opened)"
proof -
  have "\<not> is_Error (ValueError ''bad value'')"
    by simp
  from get_cursor_other_exception
    [where block = failing_block, OF enter_sample failing_block_opened this]
  show ?thesis by simp
qed

text \<open>
  Claim C5. When the cursor was acquired and the block completes normally, leaving
  the object with a connection \<open>c\<close>, the first call after the block is
  \<^verbatim>\<open>c.commit()\<close>, the last one is \<^verbatim>\<open>cursor.close()\<close>, and no other commit or
  close lies between them: commit is invoked exactly once, before the cursor is
  closed. When the commit returns normally nothing lies between the two calls, and the
  block's value is the result once the close returns normally.
\<close>

theorem get_cursor_commits_once:
  assumes "get_cursor_enter drv dictionary s = (Inr cur, s1)"
    and "block cur s1 = (Inr v, s2)"
    and "connection s2 = Some c"
  shows "\<exists>r s' mid. get_cursor drv dictionary block s = (r, s') \<and>
           trace s' = trace s2 @ [EvCommit c] @ mid @ [EvCursorClose cur] \<and>
           (\<forall>c'. EvCommit c' \<notin> set mid) \<and> (\<forall>k. EvCursorClose k \<notin> set mid) \<and>
           (drv_commit drv (trace s2) c = None \<longrightarrow>
              mid = [] \<and>
              (drv_cursor_close drv (trace s2 @ [EvCommit c]) cur = None \<longrightarrow> r = Inr v))"
  using assms
  by (auto simp add: get_cursor_def get_cursor_exit_def commit_def raise_get_cursor_def
      except_get_cursor_def finally_get_cursor_def split: option.splits)

theorem get_cursor_commits_once_witness:
  "fst (get_cursor sample_driver True query_block (fresh sample_config)) = Inr () \<and>
   trace (snd (get_cursor sample_driver True query_block (fresh sample_config))) =
     trace opened @ [EvExecute 2 (py ''SELECT 1''), EvCommit 1, EvCursorClose 2]"
proof -
  have c: "connection (emit (EvExecute 2 (py ''SELECT 1'')) opened) = Some 1"
    by (simp add: opened_def)
  from get_cursor_commits_once [where block = query_block, OF enter_sample query_block_opened c]
  obtain r s' mid where
    g: "get_cursor sample_driver True query_block (fresh sample_config) = (r, s')"
    and t: "trace s' = trace (emit (EvExecute 2 (py ''SELECT 1'')) opened) @
              [EvCommit 1] @ mid @ [EvCursorClose 2]"
    and m: "drv_commit sample_driver (trace (emit (EvExecute 2 (py ''SELECT 1'')) opened)) 1 = None
              \<longrightarrow> mid = [] \<and>
                (drv_cursor_close sample_driver
                   (trace (emit (EvExecute 2 (py ''SELECT 1'')) opened) @ [EvCommit 1]) 2 = None
                 \<longrightarrow> r = Inr ())"
    by auto
  from m have "mid = []" "r = Inr ()" by simp_all
  with g t show ?thesis by simp
qed

text \<open>
  Claim C1, as the code has it. The claim holds for a block that raises a driver
  \<^verbatim>\<open>Error\<close>: when the cursor was acquired and the block leaves the object with a
  connection \<open>c\<close>, the calls after the block are one \<^verbatim>\<open>c.rollback()\<close>, the report
  of the error (when the rollback returned normally) and one \<^verbatim>\<open>cursor.close()\<close>,
  in this order. An exception always propagates: the one \<^verbatim>\<open>close\<close> raises if it
  raises, otherwise the one \<^verbatim>\<open>rollback\<close> raises if it raises, otherwise the
  block's error.
\<close>

theorem get_cursor_rolls_back_once:
  assumes "get_cursor_enter drv dictionary s = (Inr cur, s1)"
    and "block cur s1 = (Inl e, s2)"
    and "is_Error e"
    and "connection s2 = Some c"
  shows "\<exists>r s'. get_cursor drv dictionary block s = (Inl r, s') \<and>
           trace s' = trace s2 @ [EvRollback c] @
             (if drv_rollback drv (trace s2) c = None then [EvPrint (DatabaseError e)] else []) @
             [EvCursorClose cur] \<and>
           (drv_rollback drv (trace s2) c = None \<and>
            drv_cursor_close drv (trace s2 @ [EvRollback c, EvPrint (DatabaseError e)]) cur = None
            \<longrightarrow> r = e) \<and>
           r = (case drv_cursor_close drv
                       (trace s2 @ [EvRollback c] @
                        (if drv_rollback drv (trace s2) c = None
                         then [EvPrint (DatabaseError e)] else [])) cur of
                  Some e3 \<Rightarrow> e3
                | None \<Rightarrow> (case drv_rollback drv (trace s2) c of Some e2 \<Rightarrow> e2 | None \<Rightarrow> e))"
  using assms
  by (auto simp add: get_cursor_def get_cursor_exit_def raise_get_cursor_def
      except_get_cursor_def finally_get_cursor_def split: option.splits)

theorem get_cursor_rolls_back_once_witness:
  "fst (get_cursor sample_driver True driver_error_block (fresh sample_config)) =
     Inl (Error ''1050 (42S01)'') \<and>
   trace (snd (get_cursor sample_driver True driver_error_block (fresh sample_config))) =
     trace opened @ [EvExecute 2 (py ''CREATE TABLE c(id INT)''), EvRollback 1,
       EvPrint (DatabaseError (Error ''1050 (42S01)'')), EvCursorClose 2] \<and>
   fst (get_cursor stuck_driver True driver_error_block (fresh sample_config)) =
     Inl (Error ''2013 (HY000)'') \<and>
   trace (snd (get_cursor stuck_driver True driver_error_block (fresh sample_config))) =
     trace opened @ [EvExecute 2 (py ''CREATE TABLE c(id INT)''), EvRollback 1,
       EvCursorClose 2]"
proof -
  have c: "connection (emit (EvExecute 2 (py ''CREATE TABLE c(id INT)'')) opened) = Some 1"
    by (simp add: opened_def)
  have e: "is_Error (Error ''1050 (42S01)'')"
    by simp
  from get_cursor_rolls_back_once
    [where block = driver_error_block, OF enter_sample driver_error_block_opened e c]
  have 1: "fst (get_cursor sample_driver True driver_error_block (fresh sample_config)) =
     Inl (Error ''1050 (42S01)'') \<and>
   trace (snd (get_cursor sample_driver True driver_error_block (fresh sample_config))) =
     trace opened @ [EvExecute 2 (py ''CREATE TABLE c(id INT)''), EvRollback 1,
       EvPrint (DatabaseError (Error ''1050 (42S01)'')), EvCursorClose 2]"
    by auto
  from get_cursor_rolls_back_once
    [where block = driver_error_block, OF enter_stuck driver_error_block_opened e c]
  have 2: "fst (get_cursor stuck_driver True driver_error_block (fresh sample_config)) =
     Inl (Error ''2013 (HY000)'') \<and>
   trace (snd (get_cursor stuck_driver True driver_error_block (fresh sample_config))) =
     trace opened @ [EvExecute 2 (py ''CREATE TABLE c(id INT)''), EvRollback 1,
       EvCursorClose 2]"
    by auto
  from 1 2 show ?thesis by blast
qed

text \<open>
  The claim as stated, for every block that raises, fails: a block that raises
  \<^verbatim>\<open>ValueError\<close> gets no rollback at all.
\<close>

theorem get_cursor_rollback_counterexample:
  "fst (get_cursor sample_driver True failing_block (fresh sample_config)) =
     Inl (ValueError ''bad value'') \<and>
   rollbacks (trace (snd (get_cursor sample_driver True failing_block (fresh sample_config)))) = 0"
proof -
  have "get_cursor sample_driver True failing_block (fresh sample_config) =
      (Inl (ValueError ''bad value''), emit (EvCursorClose 2) opened)"
    by (simp add: get_cursor_def enter_sample failing_block_opened get_cursor_exit_def
        raise_get_cursor_def except_get_cursor_def finally_get_cursor_def)
  then show ?thesis
    by (simp add: opened_def)
qed

section \<open>Executing a schema file\<close>

lemma split_on_nonempty: "split_on sep s \<noteq> []"
  by (induction s) (auto split: list.splits)

lemma split_on_joins: "concat (map ((#) sep) (split_on sep s)) = sep # s"
  by (induction s) (auto split: list.splits simp: split_on_nonempty)

lemma split_on_no_sep: "w \<in> set (split_on sep s) \<Longrightarrow> sep \<notin> set w"
  by (induction s arbitrary: w) (auto split: list.splits if_splits)

lemma strip_empty_iff: "strip f = [] \<longleftrightarrow> list_all is_space f"
proof -
  have "strip f = [] \<longleftrightarrow> (\<forall>x \<in> set (dropWhile is_space f). is_space x)"
    by (simp add: strip_def dropWhile_eq_Nil_conv)
  also have "\<dots> \<longleftrightarrow> dropWhile is_space f = []"
  proof
    assume a: "\<forall>x \<in> set (dropWhile is_space f). is_space x"
    show "dropWhile is_space f = []"
    proof (rule ccontr)
      assume n: "dropWhile is_space f \<noteq> []"
      then have "\<not> is_space (hd (dropWhile is_space f))" by (rule hd_dropWhile)
      moreover from n have "hd (dropWhile is_space f) \<in> set (dropWhile is_space f)" by simp
      ultimately show False using a by blast
    qed
  next
    assume d: "dropWhile is_space f = []"
    show "\<forall>x \<in> set (dropWhile is_space f). is_space x"
      unfolding d by simp
  qed
  also have "\<dots> \<longleftrightarrow> list_all is_space f"
    by (simp add: dropWhile_eq_Nil_conv list_all_iff)
  finally show ?thesis .
qed

lemma statements_fragments:
  "statements schema_sql =
     map strip (filter (\<lambda>f. \<not> list_all is_space f) (split_on semicolon schema_sql))"
  by (simp add: statements_def strip_empty_iff)

lemma statements_nonempty: "[] \<notin> set (statements schema_sql)"
  by (auto simp add: statements_def)

lemma execute_statements_ok:
  "execute_statements drv cur stmts s = (Inr u, s') \<Longrightarrow> [] \<notin> set stmts \<Longrightarrow>
   s' = s\<lparr>trace := trace s @ map (EvExecute cur) stmts\<rparr>"
proof (induction stmts arbitrary: s)
  case Nil
  then show ?case by simp
next
  case (Cons st stmts)
  from Cons.prems have ne: "st \<noteq> []" "[] \<notin> set stmts" by auto
  from Cons.prems ne obtain s1 where
    1: "cursor_execute drv cur st s = (Inr (), s1)" and
    2: "execute_statements drv cur stmts s1 = (Inr u, s')"
    by (auto split: prod.splits sum.splits)
  from 1 have s1: "s1 = emit (EvExecute cur st) s"
    by (simp add: cursor_execute_def)
  from Cons.IH [OF 2 ne(2)] show ?case
    by (simp add: s1 emit_def)
qed

lemma execute_statements_fail:
  "execute_statements drv cur stmts s = (Inl e, s') \<Longrightarrow> [] \<notin> set stmts \<Longrightarrow>
   \<exists>k<length stmts.
     s' = s\<lparr>trace := trace s @ map (EvExecute cur) (take (Suc k) stmts)\<rparr> \<and>
     drv_execute drv (trace s @ map (EvExecute cur) (take k stmts)) cur (stmts ! k) = Some e \<and>
     (\<forall>j<k. drv_execute drv (trace s @ map (EvExecute cur) (take j stmts)) cur (stmts ! j) = None)"
proof (induction stmts arbitrary: s)
  case Nil
  then show ?case by simp
next
  case (Cons st stmts)
  from Cons.prems have ne: "st \<noteq> []" "[] \<notin> set stmts" by auto
  show ?case
  proof (cases "drv_execute drv (trace s) cur st")
    case (Some e0)
    with Cons.prems ne have "e = e0" "s' = emit (EvExecute cur st) s"
      by (auto simp add: cursor_execute_def)
    with Some have "s' = s\<lparr>trace := trace s @ map (EvExecute cur) (take (Suc 0) (st # stmts))\<rparr> \<and>
     drv_execute drv (trace s @ map (EvExecute cur) (take 0 (st # stmts))) cur ((st # stmts) ! 0) = Some e \<and>
     (\<forall>j<0. drv_execute drv (trace s @ map (EvExecute cur) (take j (st # stmts))) cur ((st # stmts) ! j) = None)"
      by (simp add: emit_def)
    then show ?thesis by blast
  next
    case None
    with Cons.prems ne have
      2: "execute_statements drv cur stmts (emit (EvExecute cur st) s) = (Inl e, s')"
      by (auto simp add: cursor_execute_def)
    from Cons.IH [OF 2 ne(2)] obtain k where k: "k < length stmts"
      "s' = (emit (EvExecute cur st) s)\<lparr>trace := trace (emit (EvExecute cur st) s) @ map (EvExecute cur) (take (Suc k) stmts)\<rparr>"
      "drv_execute drv (trace (emit (EvExecute cur st) s) @ map (EvExecute cur) (take k stmts)) cur (stmts ! k) = Some e"
      "\<forall>j<k. drv_execute drv (trace (emit (EvExecute cur st) s) @ map (EvExecute cur) (take j stmts)) cur (stmts ! j) = None"
      by blast
    have "\<forall>j<Suc k. drv_execute drv (trace s @ map (EvExecute cur) (take j (st # stmts))) cur ((st # stmts) ! j) = None"
    proof (intro allI impI)
      fix j assume "j < Suc k"
      then show "drv_execute drv (trace s @ map (EvExecute cur) (take j (st # stmts))) cur ((st # stmts) ! j) = None"
        using None k(4) by (cases j) auto
    qed
    with k have "Suc k < length (st # stmts) \<and> s' = s\<lparr>trace := trace s @ map (EvExecute cur) (take (Suc (Suc k)) (st # stmts))\<rparr> \<and>
     drv_execute drv (trace s @ map (EvExecute cur) (take (Suc k) (st # stmts))) cur ((st # stmts) ! (Suc k)) = Some e \<and>
     (\<forall>j<Suc k. drv_execute drv (trace s @ map (EvExecute cur) (take j (st # stmts))) cur ((st # stmts) ! j) = None)"
      by (simp add: emit_def)
    then show ?thesis by blast
  qed
qed

lemma connect_connection:
  "connect drv s = (Inr r, s') \<Longrightarrow> \<exists>c. connection s' = Some c"
  by (auto simp add: connect_def except_connect_def Let_def split: sum.splits if_splits)

lemma get_cursor_enter_connection:
  "get_cursor_enter drv dictionary s = (Inr cur, s1) \<Longrightarrow> \<exists>c. connection s1 = Some c"
  by (auto simp add: get_cursor_enter_def make_cursor_def split: prod.splits sum.splits option.splits)


lemma execute_statements_connection:
  "execute_statements drv cur stmts s = (r, s') \<Longrightarrow> connection s' = connection s"
  by (induction stmts arbitrary: s)
     (auto simp add: cursor_execute_def split: if_splits prod.splits sum.splits option.splits)

lemma execute_schema_all_ok:
  assumes rd: "fs_read fs schema_file = Inr schema_sql"
    and en: "get_cursor_enter drv True s = (Inr cur, s1)"
    and cn: "connection s1 = Some c"
    and ex: "execute_statements drv cur (statements schema_sql) s1 = (Inr (), s2)"
  shows "\<exists>r s' post. execute_schema drv fs schema_file s = (r, s') \<and>
           trace s' = trace s1 @ map (EvExecute cur) (statements schema_sql) @ EvCommit c # post \<and>
           (\<forall>h st. EvExecute h st \<notin> set post) \<and> (\<forall>c'. EvCommit c' \<notin> set post) \<and>
           (r = Inr () \<longrightarrow> post = [EvCursorClose cur, EvPrint (SchemaExecuted schema_file)])"
proof -
  from execute_statements_ok [OF ex statements_nonempty]
  have s2: "s2 = s1\<lparr>trace := trace s1 @ map (EvExecute cur) (statements schema_sql)\<rparr>" .
  then have c2: "connection s2 = Some c" using cn by simp
  show ?thesis
    using rd en ex c2
    by (auto simp add: execute_schema_def execute_schema_try_def get_cursor_def
        get_cursor_exit_def commit_def raise_get_cursor_def except_get_cursor_def
        finally_get_cursor_def s2 split: option.splits)
qed

lemma execute_schema_failing:
  assumes rd: "fs_read fs schema_file = Inr schema_sql"
    and en: "get_cursor_enter drv True s = (Inr cur, s1)"
    and cn: "connection s1 = Some c"
    and ex: "execute_statements drv cur (statements schema_sql) s1 = (Inl e, s2)"
  shows "\<exists>r s' post. execute_schema drv fs schema_file s = (Inl r, s') \<and>
           trace s' = trace s2 @ post \<and>
           (\<forall>h st. EvExecute h st \<notin> set post) \<and> (\<forall>c'. EvCommit c' \<notin> set post) \<and>
           (is_Error e \<longrightarrow> (\<exists>post'. post = EvRollback c # post') \<and>
              (drv_rollback drv (trace s2) c = None \<and>
               drv_cursor_close drv (trace s2 @ [EvRollback c, EvPrint (DatabaseError e)]) cur = None
               \<longrightarrow> r = e \<and> post = [EvRollback c, EvPrint (DatabaseError e), EvCursorClose cur,
                                   EvPrint (SchemaFailed e)]))"
proof -
  from execute_statements_connection [OF ex] cn have c2: "connection s2 = Some c" by simp
  show ?thesis
    using rd en ex c2
    by (auto simp add: execute_schema_def execute_schema_try_def get_cursor_def
        get_cursor_exit_def raise_get_cursor_def except_get_cursor_def
        finally_get_cursor_def split: option.splits)
qed


lemma execute_schema_failing_other:
  assumes rd: "fs_read fs schema_file = Inr schema_sql"
    and en: "get_cursor_enter drv True s = (Inr cur, s1)"
    and ex: "execute_statements drv cur (statements schema_sql) s1 = (Inl e, s2)"
    and ne: "\<not> is_Error e"
  shows "\<exists>r s' post'. execute_schema drv fs schema_file s = (Inl r, s') \<and>
           trace s' = trace s2 @ EvCursorClose cur # post' \<and>
           (\<forall>c'. EvRollback c' \<notin> set post') \<and>
           (drv_cursor_close drv (trace s2) cur = None \<longrightarrow> r = e \<and> post' = [])"
  using rd en ex ne
  by (auto simp add: execute_schema_def execute_schema_try_def get_cursor_def
      get_cursor_exit_def raise_get_cursor_def except_get_cursor_def
      finally_get_cursor_def split: option.splits)

lemma execute_statements_ok_answers:
  "execute_statements drv cur stmts s = (Inr u, s') \<Longrightarrow> [] \<notin> set stmts \<Longrightarrow>
   \<forall>j<length stmts.
     drv_execute drv (trace s @ map (EvExecute cur) (take j stmts)) cur (stmts ! j) = None"
proof (induction stmts arbitrary: s)
  case Nil
  then show ?case by simp
next
  case (Cons st stmts)
  from Cons.prems have ne: "st \<noteq> []" "[] \<notin> set stmts" by auto
  from Cons.prems ne have
    1: "drv_execute drv (trace s) cur st = None" and
    2: "execute_statements drv cur stmts (emit (EvExecute cur st) s) = (Inr u, s')"
    by (auto simp add: cursor_execute_def split: prod.splits sum.splits option.splits)
  show ?case
  proof (intro allI impI)
    fix j assume "j < length (st # stmts)"
    then show "drv_execute drv (trace s @ map (EvExecute cur) (take j (st # stmts))) cur
        ((st # stmts) ! j) = None"
      using 1 Cons.IH [OF 2 ne(2)] by (cases j) auto
  qed
qed

lemma example_statements:
  "statements (py ''CREATE TABLE a(id INT);  ;CREATE TABLE b(id INT);'') =
     [py ''CREATE TABLE a(id INT)'', py ''CREATE TABLE b(id INT)'']"
  by (simp add: statements_def py_def semicolon_def strip_def is_space_def)

text \<open>
  Claim C2, as the code has it. \<^verbatim>\<open>execute_schema\<close> splits the file's text at
  every \<^verbatim>\<open>;\<close> (the pieces, joined by \<^verbatim>\<open>;\<close>, are the text, and no piece
  holds a \<^verbatim>\<open>;\<close>), drops the pieces that are empty or all white space, and strips
  the others; the specification's example gives exactly two statements. Once the file
  is read and the cursor acquired, the statements are executed on that one cursor in
  file order. If every execution returns, all of them were run and one commit follows,
  and when the method returns normally nothing but the cursor's close and the success
  message comes after it. Otherwise the executions stop at the first one that raises,
  no commit is invoked and the method raises; a driver \<^verbatim>\<open>Error\<close> is followed at
  once by a rollback, an exception of any other class by the cursor's close with no
  rollback at all.
\<close>

theorem execute_schema_statements_in_order:
  "statements (py ''CREATE TABLE a(id INT);  ;CREATE TABLE b(id INT);'') =
     [py ''CREATE TABLE a(id INT)'', py ''CREATE TABLE b(id INT)''] \<and>
   statements schema_sql =
     map strip (filter (\<lambda>f. \<not> list_all is_space f) (split_on semicolon schema_sql)) \<and>
   concat (map ((#) semicolon) (split_on semicolon schema_sql)) = semicolon # schema_sql \<and>
   (\<forall>w \<in> set (split_on semicolon schema_sql). semicolon \<notin> set w) \<and>
   (fs_read fs schema_file = Inr schema_sql \<and> get_cursor_enter drv True s = (Inr cur, s1) \<longrightarrow>
     (\<exists>r s' c n post.
        execute_schema drv fs schema_file s = (r, s') \<and> connection s1 = Some c \<and>
        n \<le> length (statements schema_sql) \<and>
        trace s' = trace s1 @ map (EvExecute cur) (take n (statements schema_sql)) @ post \<and>
        (\<forall>h st. EvExecute h st \<notin> set post) \<and>
        ((n = length (statements schema_sql) \<and>
          (\<forall>j<n. drv_execute drv
                   (trace s1 @ map (EvExecute cur) (take j (statements schema_sql))) cur
                   (statements schema_sql ! j) = None) \<and>
          (\<exists>post'. post = EvCommit c # post' \<and> (\<forall>c'. EvCommit c' \<notin> set post') \<and>
             (r = Inr () \<longrightarrow>
                post' = [EvCursorClose cur, EvPrint (SchemaExecuted schema_file)])))
         \<or>
         (\<exists>k e. n = Suc k \<and>
            (\<forall>j<k. drv_execute drv
                     (trace s1 @ map (EvExecute cur) (take j (statements schema_sql))) cur
                     (statements schema_sql ! j) = None) \<and>
            drv_execute drv
              (trace s1 @ map (EvExecute cur) (take k (statements schema_sql))) cur
              (statements schema_sql ! k) = Some e \<and>
            (\<forall>c'. EvCommit c' \<notin> set post) \<and> (\<exists>e'. r = Inl e') \<and>
            (is_Error e \<longrightarrow> (\<exists>post'. post = EvRollback c # post')) \<and>
            (\<not> is_Error e \<longrightarrow>
               (\<exists>post'. post = EvCursorClose cur # post' \<and>
                  (\<forall>c'. EvRollback c' \<notin> set post')))))))"
proof (intro conjI impI ballI)
  show "statements (py ''CREATE TABLE a(id INT);  ;CREATE TABLE b(id INT);'') =
     [py ''CREATE TABLE a(id INT)'', py ''CREATE TABLE b(id INT)'']"
    by (rule example_statements)
  show "statements schema_sql =
     map strip (filter (\<lambda>f. \<not> list_all is_space f) (split_on semicolon schema_sql))"
    by (rule statements_fragments)
  show "concat (map ((#) semicolon) (split_on semicolon schema_sql)) = semicolon # schema_sql"
    by (rule split_on_joins)
  show "semicolon \<notin> set w" if "w \<in> set (split_on semicolon schema_sql)" for w
    using that by (rule split_on_no_sep)
next
  let ?stmts = "statements schema_sql"
  assume a: "fs_read fs schema_file = Inr schema_sql \<and>
    get_cursor_enter drv True s = (Inr cur, s1)"
  then have rd: "fs_read fs schema_file = Inr schema_sql"
    and en: "get_cursor_enter drv True s = (Inr cur, s1)" by simp_all
  from get_cursor_enter_connection [OF en] obtain c where cn: "connection s1 = Some c" ..
  obtain r2 s2 where ex: "execute_statements drv cur ?stmts s1 = (r2, s2)"
    by (cases "execute_statements drv cur ?stmts s1")
  show "\<exists>r s' c n post.
        execute_schema drv fs schema_file s = (r, s') \<and> connection s1 = Some c \<and>
        n \<le> length ?stmts \<and>
        trace s' = trace s1 @ map (EvExecute cur) (take n ?stmts) @ post \<and>
        (\<forall>h st. EvExecute h st \<notin> set post) \<and>
        ((n = length ?stmts \<and>
          (\<forall>j<n. drv_execute drv
                   (trace s1 @ map (EvExecute cur) (take j ?stmts)) cur
                   (?stmts ! j) = None) \<and>
          (\<exists>post'. post = EvCommit c # post' \<and> (\<forall>c'. EvCommit c' \<notin> set post') \<and>
             (r = Inr () \<longrightarrow>
                post' = [EvCursorClose cur, EvPrint (SchemaExecuted schema_file)])))
         \<or>
         (\<exists>k e. n = Suc k \<and>
            (\<forall>j<k. drv_execute drv
                     (trace s1 @ map (EvExecute cur) (take j ?stmts)) cur
                     (?stmts ! j) = None) \<and>
            drv_execute drv
              (trace s1 @ map (EvExecute cur) (take k ?stmts)) cur
              (?stmts ! k) = Some e \<and>
            (\<forall>c'. EvCommit c' \<notin> set post) \<and> (\<exists>e'. r = Inl e') \<and>
            (is_Error e \<longrightarrow> (\<exists>post'. post = EvRollback c # post')) \<and>
            (\<not> is_Error e \<longrightarrow>
               (\<exists>post'. post = EvCursorClose cur # post' \<and>
                  (\<forall>c'. EvRollback c' \<notin> set post')))))"
  proof (cases r2)
    case (Inr u)
    with ex have ex': "execute_statements drv cur ?stmts s1 = (Inr (), s2)" by simp
    from execute_schema_all_ok [OF rd en cn ex'] obtain r s' post' where
      1: "execute_schema drv fs schema_file s = (r, s')"
      "trace s' = trace s1 @ map (EvExecute cur) ?stmts @ EvCommit c # post'"
      "\<forall>h st. EvExecute h st \<notin> set post'" "\<forall>c'. EvCommit c' \<notin> set post'"
      "r = Inr () \<longrightarrow> post' = [EvCursorClose cur, EvPrint (SchemaExecuted schema_file)]"
      by blast
    note 2 = execute_statements_ok_answers [OF ex' statements_nonempty]
    show ?thesis
      apply (rule exI [of _ r], rule exI [of _ s'], rule exI [of _ c])
      apply (rule exI [of _ "length ?stmts"], rule exI [of _ "EvCommit c # post'"])
      using 1 2 cn by simp
  next
    case (Inl e)
    with ex have ex': "execute_statements drv cur ?stmts s1 = (Inl e, s2)" by simp
    from execute_statements_fail [OF ex' statements_nonempty] obtain k where
      k: "k < length ?stmts"
      "s2 = s1\<lparr>trace := trace s1 @ map (EvExecute cur) (take (Suc k) ?stmts)\<rparr>"
      "drv_execute drv (trace s1 @ map (EvExecute cur) (take k ?stmts)) cur (?stmts ! k) = Some e"
      "\<forall>j<k. drv_execute drv (trace s1 @ map (EvExecute cur) (take j ?stmts)) cur (?stmts ! j) = None"
      by blast
    from execute_schema_failing [OF rd en cn ex'] obtain r s' post where
      1: "execute_schema drv fs schema_file s = (Inl r, s')"
      "trace s' = trace s2 @ post"
      "\<forall>h st. EvExecute h st \<notin> set post" "\<forall>c'. EvCommit c' \<notin> set post"
      "is_Error e \<longrightarrow> (\<exists>post'. post = EvRollback c # post')"
      by blast
    have t: "trace s' = trace s1 @ map (EvExecute cur) (take (Suc k) ?stmts) @ post"
      using 1(2) k(2) by simp
    have o: "\<not> is_Error e \<longrightarrow>
        (\<exists>post'. post = EvCursorClose cur # post' \<and> (\<forall>c'. EvRollback c' \<notin> set post'))"
    proof
      assume "\<not> is_Error e"
      from execute_schema_failing_other [OF rd en ex' this] obtain r0 s0 post' where
        0: "execute_schema drv fs schema_file s = (Inl r0, s0)"
        "trace s0 = trace s2 @ EvCursorClose cur # post'"
        "\<forall>c'. EvRollback c' \<notin> set post'"
        by blast
      from 0(1) 1(1) have "s0 = s'" by simp
      with 0(2) 1(2) have "post = EvCursorClose cur # post'" by simp
      with 0(3) show "\<exists>post'. post = EvCursorClose cur # post' \<and>
          (\<forall>c'. EvRollback c' \<notin> set post')"
        by blast
    qed
    show ?thesis
      apply (rule exI [of _ "Inl r"], rule exI [of _ s'], rule exI [of _ c])
      apply (rule exI [of _ "Suc k"], rule exI [of _ post])
      using 1 k cn t o by auto
  qed
qed


lemma py_nonempty: "py (c # cs) \<noteq> []"
  by (simp add: py_def)

lemma py_table_neq:
  "py ''CREATE TABLE a(id INT)'' \<noteq> py ''CREATE TABLE c(id INT)''"
  "py ''CREATE TABLE b(id INT)'' \<noteq> py ''CREATE TABLE c(id INT)''"
  by (simp_all add: py_def)

lemma sample_fs_simps [simp]:
  "fs_read sample_fs ''database_schema.sql'' =
     Inr (py ''CREATE TABLE a(id INT);  ;CREATE TABLE b(id INT);'')"
  "fs_read sample_fs ''broken_schema.sql'' =
     Inr (py ''CREATE TABLE a(id INT);CREATE TABLE c(id INT);CREATE TABLE b(id INT);'')"
  "fs_read sample_fs ''nowhere.sql'' = Inl (FileNotFoundError ''nowhere.sql'')"
  by (simp_all add: sample_fs_def)

lemma opened_connection [simp]: "connection opened = Some 1"
  by (simp add: opened_def)

lemma run_example_schema:
  "fst (execute_schema sample_driver sample_fs ''database_schema.sql'' (fresh sample_config)) =
     Inr ()"
  by (simp add: execute_schema_def execute_schema_try_def get_cursor_def enter_sample
      example_statements cursor_execute_def py_nonempty py_table_neq get_cursor_exit_def
      commit_def finally_get_cursor_def)

theorem execute_schema_statements_in_order_witness:
  "fst (execute_schema sample_driver sample_fs ''database_schema.sql'' (fresh sample_config)) =
     Inr () \<and>
   trace (snd (execute_schema sample_driver sample_fs ''database_schema.sql''
                 (fresh sample_config))) =
     trace opened @
     [EvExecute 2 (py ''CREATE TABLE a(id INT)''), EvExecute 2 (py ''CREATE TABLE b(id INT)''),
      EvCommit 1, EvCursorClose 2, EvPrint (SchemaExecuted ''database_schema.sql'')]"
proof -
  let ?sql = "py ''CREATE TABLE a(id INT);  ;CREATE TABLE b(id INT);''"
  let ?run = "execute_schema sample_driver sample_fs ''database_schema.sql'' (fresh sample_config)"
  have h: "fs_read sample_fs ''database_schema.sql'' = Inr ?sql \<and>
      get_cursor_enter sample_driver True (fresh sample_config) = (Inr 2, opened)"
    by (simp add: enter_sample)
  have st: "statements ?sql = [py ''CREATE TABLE a(id INT)'', py ''CREATE TABLE b(id INT)'']"
    using execute_schema_statements_in_order [of ?sql] by blast
  from h execute_schema_statements_in_order
    [of ?sql sample_fs "''database_schema.sql''" sample_driver "fresh sample_config" 2 opened]
  obtain r s' c n post where
    run: "?run = (r, s')" and c: "connection opened = Some c"
    and tr: "trace s' = trace opened @ map (EvExecute 2) (take n (statements ?sql)) @ post"
    and alt: "(n = length (statements ?sql) \<and>
        (\<exists>post'. post = EvCommit c # post' \<and>
           (r = Inr () \<longrightarrow>
              post' = [EvCursorClose 2, EvPrint (SchemaExecuted ''database_schema.sql'')])))
      \<or> (\<exists>e'. r = Inl e')"
    by blast
  from run run_example_schema have r: "r = Inr ()" by simp
  from c have c1: "c = 1" by simp
  from alt r c1 have "n = length (statements ?sql)"
    "post = [EvCommit 1, EvCursorClose 2, EvPrint (SchemaExecuted ''database_schema.sql'')]"
    by auto
  with tr st have "trace s' = trace opened @
     [EvExecute 2 (py ''CREATE TABLE a(id INT)''), EvExecute 2 (py ''CREATE TABLE b(id INT)''),
      EvCommit 1, EvCursorClose 2, EvPrint (SchemaExecuted ''database_schema.sql'')]"
    by simp
  with run r show ?thesis by simp
qed


text \<open>
  The claim as stated, that the statements roll back together on the first failure,
  fails when the failure is not a driver \<^verbatim>\<open>Error\<close>: the first statement raises,
  the cursor is closed, and neither rollback nor commit is invoked.
\<close>

theorem execute_schema_no_rollback_counterexample:
  "fst (execute_schema interrupted_driver sample_fs ''database_schema.sql''
          (fresh sample_config)) = Inl (OtherException ''RuntimeError'') \<and>
   trace (snd (execute_schema interrupted_driver sample_fs ''database_schema.sql''
                 (fresh sample_config))) =
     trace opened @ [EvExecute 2 (py ''CREATE TABLE a(id INT)''), EvCursorClose 2] \<and>
   rollbacks (trace (snd (execute_schema interrupted_driver sample_fs ''database_schema.sql''
                            (fresh sample_config)))) = 0"
proof -
  have "execute_schema interrupted_driver sample_fs ''database_schema.sql''
          (fresh sample_config) =
      (Inl (OtherException ''RuntimeError''),
       opened\<lparr>trace := trace opened @
          [EvExecute 2 (py ''CREATE TABLE a(id INT)''), EvCursorClose 2]\<rparr>)"
    by (simp add: execute_schema_def execute_schema_try_def get_cursor_def enter_interrupted
        example_statements cursor_execute_def py_nonempty get_cursor_exit_def
        raise_get_cursor_def except_get_cursor_def finally_get_cursor_def emit_def)
  then show ?thesis
    by (simp add: opened_def)
qed

text \<open>
  Claim C7, as the code has it. When reading the schema file raises (an
  \<^verbatim>\<open>OSError\<close> such as \<^verbatim>\<open>FileNotFoundError\<close>, which is not a driver
  \<^verbatim>\<open>Error\<close>), \<^verbatim>\<open>execute_schema\<close> propagates that exception unchanged and
  touches nothing. When the execution of a statement raises a driver \<^verbatim>\<open>Error\<close>,
  no later statement is executed, a rollback follows at once, nothing is committed,
  and the method raises: the statement's error itself, after both reports, when
  rollback and cursor close return normally.
\<close>

theorem execute_schema_failures:
  "(fs_read fs schema_file = Inl e \<and> \<not> is_Error e \<longrightarrow>
      execute_schema drv fs schema_file s = (Inl e, s)) \<and>
   (fs_read fs schema_file = Inr schema_sql \<and>
    get_cursor_enter drv True s = (Inr cur, s1) \<and> connection s1 = Some c \<and>
    execute_statements drv cur (statements schema_sql) s1 = (Inl e', s2) \<and> is_Error e' \<longrightarrow>
      (\<exists>r s' k post.
         execute_schema drv fs schema_file s = (Inl r, s') \<and>
         k < length (statements schema_sql) \<and>
         drv_execute drv (trace s1 @ map (EvExecute cur) (take k (statements schema_sql))) cur
           (statements schema_sql ! k) = Some e' \<and>
         trace s2 = trace s1 @ map (EvExecute cur) (take (Suc k) (statements schema_sql)) \<and>
         trace s' = trace s2 @ EvRollback c # post \<and>
         (\<forall>h st. EvExecute h st \<notin> set post) \<and> (\<forall>c'. EvCommit c' \<notin> set post) \<and>
         (drv_rollback drv (trace s2) c = None \<and>
          drv_cursor_close drv (trace s2 @ [EvRollback c, EvPrint (DatabaseError e')]) cur = None
          \<longrightarrow> r = e' \<and>
              post = [EvPrint (DatabaseError e'), EvCursorClose cur, EvPrint (SchemaFailed e')])))"
proof (intro conjI impI)
  assume "fs_read fs schema_file = Inl e \<and> \<not> is_Error e"
  then show "execute_schema drv fs schema_file s = (Inl e, s)"
    by (simp add: execute_schema_def execute_schema_try_def)
next
  let ?stmts = "statements schema_sql"
  assume a: "fs_read fs schema_file = Inr schema_sql \<and>
    get_cursor_enter drv True s = (Inr cur, s1) \<and> connection s1 = Some c \<and>
    execute_statements drv cur ?stmts s1 = (Inl e', s2) \<and> is_Error e'"
  then have rd: "fs_read fs schema_file = Inr schema_sql"
    and en: "get_cursor_enter drv True s = (Inr cur, s1)"
    and cn: "connection s1 = Some c"
    and ex: "execute_statements drv cur ?stmts s1 = (Inl e', s2)"
    and er: "is_Error e'" by simp_all
  from execute_statements_fail [OF ex statements_nonempty] obtain k where
    k: "k < length ?stmts"
    "s2 = s1\<lparr>trace := trace s1 @ map (EvExecute cur) (take (Suc k) ?stmts)\<rparr>"
    "drv_execute drv (trace s1 @ map (EvExecute cur) (take k ?stmts)) cur (?stmts ! k) = Some e'"
    by blast
  from execute_schema_failing [OF rd en cn ex] er obtain r s' post where
    1: "execute_schema drv fs schema_file s = (Inl r, s')"
    "trace s' = trace s2 @ post"
    "\<forall>h st. EvExecute h st \<notin> set post" "\<forall>c'. EvCommit c' \<notin> set post"
    "\<exists>post'. post = EvRollback c # post'"
    "drv_rollback drv (trace s2) c = None \<and>
     drv_cursor_close drv (trace s2 @ [EvRollback c, EvPrint (DatabaseError e')]) cur = None
     \<longrightarrow> r = e' \<and> post = [EvRollback c, EvPrint (DatabaseError e'), EvCursorClose cur,
                            EvPrint (SchemaFailed e')]"
    by blast
  from 1(5) obtain post' where p: "post = EvRollback c # post'" ..
  show "\<exists>r s' k post.
         execute_schema drv fs schema_file s = (Inl r, s') \<and>
         k < length ?stmts \<and>
         drv_execute drv (trace s1 @ map (EvExecute cur) (take k ?stmts)) cur
           (?stmts ! k) = Some e' \<and>
         trace s2 = trace s1 @ map (EvExecute cur) (take (Suc k) ?stmts) \<and>
         trace s' = trace s2 @ EvRollback c # post \<and>
         (\<forall>h st. EvExecute h st \<notin> set post) \<and> (\<forall>c'. EvCommit c' \<notin> set post) \<and>
         (drv_rollback drv (trace s2) c = None \<and>
          drv_cursor_close drv (trace s2 @ [EvRollback c, EvPrint (DatabaseError e')]) cur = None
          \<longrightarrow> r = e' \<and>
              post = [EvPrint (DatabaseError e'), EvCursorClose cur, EvPrint (SchemaFailed e')])"
    apply (rule exI [of _ r], rule exI [of _ s'], rule exI [of _ k], rule exI [of _ post'])
    using 1 k p by auto
qed

lemma broken_statements:
  "statements (py ''CREATE TABLE a(id INT);CREATE TABLE c(id INT);CREATE TABLE b(id INT);'') =
     [py ''CREATE TABLE a(id INT)'', py ''CREATE TABLE c(id INT)'', py ''CREATE TABLE b(id INT)'']"
  by (simp add: statements_def py_def semicolon_def strip_def is_space_def)

lemma run_broken_statements:
  "execute_statements sample_driver 2
     [py ''CREATE TABLE a(id INT)'', py ''CREATE TABLE c(id INT)'', py ''CREATE TABLE b(id INT)'']
     opened =
   (Inl (Error ''1050 (42S01)''), opened\<lparr>trace := trace opened @
      [EvExecute 2 (py ''CREATE TABLE a(id INT)''), EvExecute 2 (py ''CREATE TABLE c(id INT)'')]\<rparr>)"
  by (simp add: cursor_execute_def py_nonempty py_table_neq emit_def)

theorem execute_schema_failures_witness:
  "execute_schema sample_driver sample_fs ''nowhere.sql'' (fresh sample_config) =
     (Inl (FileNotFoundError ''nowhere.sql''), fresh sample_config) \<and>
   fst (execute_schema sample_driver sample_fs ''broken_schema.sql'' (fresh sample_config)) =
     Inl (Error ''1050 (42S01)'') \<and>
   trace (snd (execute_schema sample_driver sample_fs ''broken_schema.sql''
                 (fresh sample_config))) =
     trace opened @
     [EvExecute 2 (py ''CREATE TABLE a(id INT)''), EvExecute 2 (py ''CREATE TABLE c(id INT)''),
      EvRollback 1, EvPrint (DatabaseError (Error ''1050 (42S01)'')), EvCursorClose 2,
      EvPrint (SchemaFailed (Error ''1050 (42S01)''))]"
proof -
  let ?sql = "py ''CREATE TABLE a(id INT);CREATE TABLE c(id INT);CREATE TABLE b(id INT);''"
  let ?s2 = "opened\<lparr>trace := trace opened @
      [EvExecute 2 (py ''CREATE TABLE a(id INT)''), EvExecute 2 (py ''CREATE TABLE c(id INT)'')]\<rparr>"
  let ?e = "Error ''1050 (42S01)''"
  have 1: "fs_read sample_fs ''nowhere.sql'' = Inl (FileNotFoundError ''nowhere.sql'') \<and>
      \<not> is_Error (FileNotFoundError ''nowhere.sql'')"
    by simp
  have 2: "fs_read sample_fs ''broken_schema.sql'' = Inr ?sql \<and>
    get_cursor_enter sample_driver True (fresh sample_config) = (Inr 2, opened) \<and>
    connection opened = Some 1 \<and>
    execute_statements sample_driver 2 (statements ?sql) opened = (Inl ?e, ?s2) \<and> is_Error ?e"
  proof (intro conjI)
    show "execute_statements sample_driver 2 (statements ?sql) opened = (Inl ?e, ?s2)"
      unfolding broken_statements by (rule run_broken_statements)
  qed (simp_all add: enter_sample)
  from 1 execute_schema_failures
    [of sample_fs "''nowhere.sql''" "FileNotFoundError ''nowhere.sql''" sample_driver
        "fresh sample_config"]
  have a: "execute_schema sample_driver sample_fs ''nowhere.sql'' (fresh sample_config) =
     (Inl (FileNotFoundError ''nowhere.sql''), fresh sample_config)"
    by blast
  note inst = execute_schema_failures
    [of sample_fs "''broken_schema.sql''" _ sample_driver "fresh sample_config" ?sql 2 opened 1
        ?e ?s2, THEN conjunct2, THEN mp, OF 2]
  from inst obtain r s' post where
    run: "execute_schema sample_driver sample_fs ''broken_schema.sql'' (fresh sample_config) =
       (Inl r, s')"
    and tr: "trace s' = trace ?s2 @ EvRollback 1 # post"
    and fin: "drv_rollback sample_driver (trace ?s2) 1 = None \<and>
          drv_cursor_close sample_driver (trace ?s2 @ [EvRollback 1, EvPrint (DatabaseError ?e)]) 2
            = None
          \<longrightarrow> r = ?e \<and>
              post = [EvPrint (DatabaseError ?e), EvCursorClose 2, EvPrint (SchemaFailed ?e)]"
    by (elim exE conjE) (rule that)
  from fin have "r = ?e"
    "post = [EvPrint (DatabaseError ?e), EvCursorClose 2, EvPrint (SchemaFailed ?e)]"
    by simp_all
  with run tr a show ?thesis by simp
qed

text \<open>
  The claim as stated fails for the file: a missing schema file makes
  \<^verbatim>\<open>execute_schema\<close> raise \<^verbatim>\<open>FileNotFoundError\<close>, which is not the driver's
  error class.
\<close>

theorem execute_schema_read_counterexample:
  "execute_schema sample_driver sample_fs ''nowhere.sql'' (fresh sample_config) =
     (Inl (FileNotFoundError ''nowhere.sql''), fresh sample_config) \<and>
   \<not> is_Error (FileNotFoundError ''nowhere.sql'')"
  by (simp add: execute_schema_def execute_schema_try_def)

section \<open>Testing the connection\<close>

lemma test_block_True: "test_block drv cur s = (Inr b, s') \<Longrightarrow> b"
  by (auto simp add: test_block_def split: prod.splits sum.splits)

lemma get_cursor_Inr:
  "get_cursor drv dictionary block s = (Inr v, s') \<Longrightarrow> \<exists>cur s1 s2. block cur s1 = (Inr v, s2)"
  by (auto simp add: get_cursor_def split: prod.splits sum.splits option.splits)

lemma test_connection_try_True: "test_connection_try drv s = (Inr b, s') \<Longrightarrow> b"
  by (auto simp add: test_connection_try_def split: prod.splits sum.splits
      dest!: get_cursor_Inr test_block_True)

lemma disconnect_trace:
  "trace (disconnect drv s) =
     trace s @ (case connection s of
                  None \<Rightarrow> []
                | Some c \<Rightarrow> EvIsConnected c #
                    (if drv_is_connected drv (trace s) c
                     then [EvClose c, EvPrint ConnectionClosed] else []))"
  by (simp add: disconnect_def Let_def split: option.splits)

lemma disconnect_connection: "connection (disconnect drv s) = connection s"
  by (simp add: disconnect_def Let_def split: option.splits)

text \<open>
  Claim C3, as the code has it. \<^verbatim>\<open>test_connection\<close> ends with
  \<^verbatim>\<open>disconnect\<close> on every path: when a connection is stored,
  \<^verbatim>\<open>is_connected()\<close> is asked and a live connection is closed. It returns
  \<^verbatim>\<open>True\<close> exactly when the body of its \<^verbatim>\<open>try\<close> completes, returns
  \<^verbatim>\<open>False\<close>, after a report, exactly when that body raises a driver
  \<^verbatim>\<open>Error\<close>, and lets every other exception propagate.
\<close>

theorem test_connection_outcomes:
  "\<exists>r s1. test_connection drv s = (r, disconnect drv s1) \<and>
     ((r = Inr True \<and> test_connection_try drv s = (Inr True, s1)) \<or>
      (\<exists>e s0. is_Error e \<and> test_connection_try drv s = (Inl e, s0) \<and> r = Inr False \<and>
         s1 = emit (EvPrint (TestFailed e)) s0) \<or>
      (\<exists>e. \<not> is_Error e \<and> test_connection_try drv s = (Inl e, s1) \<and> r = Inl e)) \<and>
     connection (disconnect drv s1) = connection s1 \<and>
     trace (disconnect drv s1) =
       trace s1 @ (case connection s1 of
                     None \<Rightarrow> []
                   | Some c \<Rightarrow> EvIsConnected c #
                       (if drv_is_connected drv (trace s1) c
                        then [EvClose c, EvPrint ConnectionClosed] else []))"
proof -
  obtain r0 s0 where t: "test_connection_try drv s = (r0, s0)"
    by (cases "test_connection_try drv s")
  show ?thesis
  proof (cases r0)
    case (Inr b)
    with t test_connection_try_True [of drv s b s0] have b: "b" by simp
    with t Inr have "test_connection drv s = (Inr True, disconnect drv s0)"
      by (simp add: test_connection_def)
    with t Inr b show ?thesis
      using disconnect_trace [of drv s0] disconnect_connection [of drv s0] by auto
  next
    case (Inl e)
    show ?thesis
    proof (cases "is_Error e")
      case True
      with t Inl have "test_connection drv s =
          (Inr False, disconnect drv (emit (EvPrint (TestFailed e)) s0))"
        by (simp add: test_connection_def)
      with t Inl True show ?thesis
        using disconnect_trace [of drv "emit (EvPrint (TestFailed e)) s0"]
          disconnect_connection [of drv "emit (EvPrint (TestFailed e)) s0"] by auto
    next
      case False
      with t Inl have "test_connection drv s = (Inl e, disconnect drv s0)"
        by (simp add: test_connection_def)
      with t Inl False show ?thesis
        using disconnect_trace [of drv s0] disconnect_connection [of drv s0] by auto
    qed
  qed
qed

lemma try_sample:
  "test_connection_try sample_driver (fresh sample_config) =
     (Inr True,
      \<lparr>db_config = \<lparr>config_file = ''my.json'', config = sample_config\<rparr>,
       connection = Some 1,
       trace = [EvConnect sample_args, EvIsConnected 1, EvPrint (Connected (JStr ''telegram'')),
                EvIsConnected 1, EvCursor 1 True, EvExecute 2 (py ''SELECT VERSION()''),
                EvFetchone 2, EvPrint (MySQLVersion (JObj [(''VERSION()'', JStr ''8.0.36'')])),
                EvCommit 1, EvCursorClose 2]\<rparr>)"
  by (simp add: test_connection_try_def connect_def connect_args_sample get_cursor_def
      get_cursor_enter_def ensure_connected_def make_cursor_def test_block_def
      cursor_execute_def cursor_fetchone_def get_cursor_exit_def commit_def
      finally_get_cursor_def fresh_def emit_def sample_args_def py_def)

theorem test_connection_outcomes_witness:
  "fst (test_connection sample_driver (fresh sample_config)) = Inr True \<and>
   trace (snd (test_connection sample_driver (fresh sample_config))) =
     [EvConnect sample_args, EvIsConnected 1, EvPrint (Connected (JStr ''telegram'')),
      EvIsConnected 1, EvCursor 1 True, EvExecute 2 (py ''SELECT VERSION()''),
      EvFetchone 2, EvPrint (MySQLVersion (JObj [(''VERSION()'', JStr ''8.0.36'')])),
      EvCommit 1, EvCursorClose 2, EvIsConnected 1, EvClose 1, EvPrint ConnectionClosed]"
proof -
  from test_connection_outcomes [of sample_driver "fresh sample_config"]
  obtain r s1 where
    run: "test_connection sample_driver (fresh sample_config) = (r, disconnect sample_driver s1)"
    and alt: "(r = Inr True \<and> test_connection_try sample_driver (fresh sample_config) = (Inr True, s1)) \<or>
      (\<exists>e s0. test_connection_try sample_driver (fresh sample_config) = (Inl e, s0)) \<or>
      (\<exists>e. test_connection_try sample_driver (fresh sample_config) = (Inl e, s1))"
    and tr: "trace (disconnect sample_driver s1) =
       trace s1 @ (case connection s1 of
                     None \<Rightarrow> []
                   | Some c \<Rightarrow> EvIsConnected c #
                       (if drv_is_connected sample_driver (trace s1) c
                        then [EvClose c, EvPrint ConnectionClosed] else []))"
    by (elim exE conjE) (rule that, auto)
  from alt have r: "r = Inr True" and s1: "s1 =
      \<lparr>db_config = \<lparr>config_file = ''my.json'', config = sample_config\<rparr>,
       connection = Some 1,
       trace = [EvConnect sample_args, EvIsConnected 1, EvPrint (Connected (JStr ''telegram'')),
                EvIsConnected 1, EvCursor 1 True, EvExecute 2 (py ''SELECT VERSION()''),
                EvFetchone 2, EvPrint (MySQLVersion (JObj [(''VERSION()'', JStr ''8.0.36'')])),
                EvCommit 1, EvCursorClose 2]\<rparr>"
    by (simp_all add: try_sample)
  from tr have "trace (disconnect sample_driver s1) =
     [EvConnect sample_args, EvIsConnected 1, EvPrint (Connected (JStr ''telegram'')),
      EvIsConnected 1, EvCursor 1 True, EvExecute 2 (py ''SELECT VERSION()''),
      EvFetchone 2, EvPrint (MySQLVersion (JObj [(''VERSION()'', JStr ''8.0.36'')])),
      EvCommit 1, EvCursorClose 2, EvIsConnected 1, EvClose 1, EvPrint ConnectionClosed]"
    by (simp add: s1)
  with run r show ?thesis by simp
qed

text \<open>
  The claim as stated, that no exception ever reaches the caller, fails: a
  configuration without \<^verbatim>\<open>host\<close> passes \<^verbatim>\<open>load_config\<close>, and
  \<^verbatim>\<open>test_connection\<close> then raises \<^verbatim>\<open>KeyError\<close>.
\<close>

theorem test_connection_propagates_counterexample:
  "test_connection sample_driver (fresh hostless_config) =
     (Inl (KeyError ''host''), fresh hostless_config)"
  by (simp add: test_connection_def test_connection_try_def connect_def connect_args_def
      except_connect_def disconnect_def fresh_def hostless_config_def)

end
